theory Spec2Isabelle
  imports Main
begin

section \<open>Data model of the music cog\<close>

text \<open>
  The embedding follows \<^verbatim>\<open>src/musicnowerror.py\<close> (class \<^verbatim>\<open>MusicCog\<close>) and, where a
  claim names it, the older \<^verbatim>\<open>src/musicold.py\<close>. Track references, queries and messages
  are Python strings; guild and channel identities are numbers.
\<close>

type_synonym url = string
type_synonym guild_id = nat
type_synonym channel = nat

text \<open>
  One element of \<^verbatim>\<open>info['formats']\<close>. The field \<open>abr_key\<close> is the value of
  \<^verbatim>\<open>int(f.get('abr', 0) or 0)\<close>, or \<open>None\<close> when that conversion raises; a missing
  dictionary key is \<open>None\<close> in the other two fields. Format dictionaries are taken to be
  non-empty, so that \<^verbatim>\<open>not best_format\<close> tests for \<^verbatim>\<open>None\<close>.
\<close>

record audio_format =
  acodec :: "string option"
  abr_key :: "int option"
  format_url :: "string option"

text \<open>One element of \<^verbatim>\<open>info['entries']\<close> of a playlist result.\<close>

record entry =
  entry_title :: "string option"
  entry_duration :: "int option"
  entry_webpage_url :: "string option"
  entry_url :: "string option"

text \<open>
  The dictionary returned by \<^verbatim>\<open>extract_info\<close>. \<open>info_entries = None\<close> means that the key
  \<^verbatim>\<open>'entries'\<close> is absent; an element \<open>None\<close> of the list is a \<^verbatim>\<open>None\<close> entry.
\<close>

record info =
  info_title :: "string option"
  info_duration :: "int option"
  info_webpage_url :: "string option"
  info_url :: "string option"
  info_formats :: "audio_format list option"
  info_entries :: "entry option list option"

text \<open>The four option profiles with which the source builds a \<^verbatim>\<open>YoutubeDL\<close> object.\<close>

datatype ytdl =
    CogYtdl       \<comment> \<open>\<^verbatim>\<open>self.ytdl\<close>, built from \<^verbatim>\<open>YTDL_OPTIONS\<close>\<close>
  | PreloadYtdl   \<comment> \<open>\<^verbatim>\<open>ytdl_opts\<close> of \<^verbatim>\<open>_preload_song\<close>: \<^verbatim>\<open>noplaylist\<close> set\<close>
  | FlatYtdl      \<comment> \<open>\<^verbatim>\<open>temp_opts\<close> of \<^verbatim>\<open>play\<close>: \<^verbatim>\<open>extract_flat = 'in_playlist'\<close>\<close>
  | SearchYtdl    \<comment> \<open>\<^verbatim>\<open>temp_opts\<close> of \<^verbatim>\<open>_try_alternative_source\<close>\<close>

datatype extract_outcome =
    Raises string           \<comment> \<open>the call raises; the text is \<^verbatim>\<open>str(e)\<close>\<close>
  | Returned "info option"  \<comment> \<open>\<open>None\<close>: a result that is falsy (\<^verbatim>\<open>None\<close> or empty)\<close>

datatype source =
    PCMVolumeTransformer string   \<comment> \<open>wraps \<^verbatim>\<open>FFmpegPCMAudio(audio_url, ...)\<close>\<close>
  | FFmpegOpusAudio string        \<comment> \<open>\<^verbatim>\<open>FFmpegOpusAudio.from_probe(audio_url, ...)\<close>\<close>

record track_meta =
  meta_title :: string
  meta_duration :: int
  meta_webpage_url :: "string option"

record audio_entry =
  entry_source :: source
  entry_info :: info
  created_at :: nat

datatype task =
    PreloadSong url
  | PreloadNextTracks guild_id
  | ProcessPendingPlaylists guild_id "channel option"

text \<open>
  What the cog does to the outside world, in the order it happens. Output written with
  \<^verbatim>\<open>print\<close> is not recorded.
\<close>

text \<open>A structured card and its named fields, as built with \<^verbatim>\<open>discord.Embed\<close>.\<close>

record embed_field =
  field_name :: string
  field_value :: string
  field_inline :: bool

record embed =
  embed_title :: string
  embed_fields :: "embed_field list"

datatype target =
    Channel channel   \<comment> \<open>\<^verbatim>\<open>text_channel.send\<close>\<close>
  | Followup          \<comment> \<open>\<^verbatim>\<open>interaction.followup.send\<close>\<close>
  | Response          \<comment> \<open>\<^verbatim>\<open>interaction.response.send_message\<close>\<close>

datatype event =
    ExtractInfo ytdl string      \<comment> \<open>a call of \<^verbatim>\<open>extract_info(query, download=False)\<close>\<close>
  | OpenStream string            \<comment> \<open>construction of an audio source from a stream URL\<close>
  | Send target string           \<comment> \<open>a text message sent to the user\<close>
  | SendEmbed target embed       \<comment> \<open>a card sent to the user\<close>
  | Sleep nat                    \<comment> \<open>\<^verbatim>\<open>asyncio.sleep\<close>\<close>
  | CreateTask task              \<comment> \<open>\<^verbatim>\<open>self.loop.create_task\<close>\<close>
  | VoicePlay guild_id source    \<comment> \<open>\<^verbatim>\<open>guild.voice_client.play\<close>\<close>
  | HttpGet string               \<comment> \<open>\<^verbatim>\<open>session.get\<close> in \<^verbatim>\<open>_try_alternative_source\<close>\<close>
  | ExtractSongInfo string       \<comment> \<open>a call of \<^verbatim>\<open>_extract_song_info\<close>\<close>
  | VoiceConnect guild_id        \<comment> \<open>\<^verbatim>\<open>interaction.user.voice.channel.connect\<close>\<close>
  | LogError string              \<comment> \<open>\<^verbatim>\<open>log_error(e, context)\<close>, with its context text\<close>

text \<open>
  The state of a \<^verbatim>\<open>MusicCog\<close>: the four dictionaries of \<^verbatim>\<open>__init__\<close> and the trace of
  events so far. The two caches are indexed by the track reference alone, as
  \<^verbatim>\<open>self.title_cache[url]\<close> and \<^verbatim>\<open>self.audio_cache[url]\<close> are.
\<close>

record cog =
  queues :: "guild_id \<rightharpoonup> url list"
  title_cache :: "url \<rightharpoonup> track_meta"
  audio_cache :: "url \<rightharpoonup> audio_entry"
  pending_playlists :: "guild_id \<rightharpoonup> string list"
  trace :: "event list"

text \<open>
  The collaborators the cog consumes. Each may answer differently from one call to the
  next, so each takes the number of events that happened before the call. A \<open>Some\<close>
  answer of \<open>voice_play\<close> and \<open>voice_connect\<close> is the text of an exception.
\<close>

datatype http_outcome =
    HttpRaises                 \<comment> \<open>the request raises\<close>
  | HttpResponse nat string    \<comment> \<open>status and text of the response\<close>

record env =
  extract_info :: "nat \<Rightarrow> ytdl \<Rightarrow> string \<Rightarrow> extract_outcome"
  open_stream :: "nat \<Rightarrow> string \<Rightarrow> bool"
  voice_connected :: "nat \<Rightarrow> guild_id \<Rightarrow> bool"
  voice_play :: "nat \<Rightarrow> guild_id \<Rightarrow> source \<Rightarrow> string option"
  song_info :: "nat \<Rightarrow> string \<Rightarrow> string \<times> string \<times> string"
  http_get :: "nat \<Rightarrow> string \<Rightarrow> http_outcome"
  has_voice_client :: "nat \<Rightarrow> guild_id \<Rightarrow> bool"
  voice_connect :: "nat \<Rightarrow> guild_id \<Rightarrow> string option"
  is_playing :: "nat \<Rightarrow> guild_id \<Rightarrow> bool"

definition emit :: "event \<Rightarrow> cog \<Rightarrow> cog" where
  "emit e s = s\<lparr>trace := trace s @ [e]\<rparr>"

definition now :: "cog \<Rightarrow> nat" where
  "now s = length (trace s)"

text \<open>\<^verbatim>\<open>if text_channel: await text_channel.send(msg)\<close>.\<close>

definition notify :: "channel option \<Rightarrow> string \<Rightarrow> cog \<Rightarrow> cog" where
  "notify ch msg s = (case ch of None \<Rightarrow> s | Some c \<Rightarrow> emit (Send (Channel c) msg) s)"

definition init_cog :: cog where
  "init_cog = \<lparr>queues = Map.empty, title_cache = Map.empty, audio_cache = Map.empty,
     pending_playlists = Map.empty, trace = []\<rparr>"

section \<open>Queue store\<close>

text \<open>\<^verbatim>\<open>get_queue\<close>: the guild's list, created empty on first access.\<close>

definition get_queue :: "guild_id \<Rightarrow> cog \<Rightarrow> url list \<times> cog" where
  "get_queue g s =
     (case queues s g of
        None \<Rightarrow> ([], s\<lparr>queues := (queues s)(g \<mapsto> [])\<rparr>)
      | Some q \<Rightarrow> (q, s))"

text \<open>\<^verbatim>\<open>self.get_queue(g).append(u)\<close>.\<close>

definition queue_append :: "guild_id \<Rightarrow> url \<Rightarrow> cog \<Rightarrow> cog" where
  "queue_append g u s =
     (let (q, s1) = get_queue g s in s1\<lparr>queues := (queues s1)(g \<mapsto> q @ [u])\<rparr>)"

text \<open>\<^verbatim>\<open>self.get_queue(g).pop(0)\<close>; \<open>None\<close> is the \<^verbatim>\<open>IndexError\<close> of an empty list.\<close>

definition queue_pop :: "guild_id \<Rightarrow> cog \<Rightarrow> (url \<times> cog) option" where
  "queue_pop g s =
     (let (q, s1) = get_queue g s in
      case q of
        [] \<Rightarrow> None
      | u # rest \<Rightarrow> Some (u, s1\<lparr>queues := (queues s1)(g \<mapsto> rest)\<rparr>))"

text \<open>Consuming the head \<open>n\<close> times, collecting what each \<^verbatim>\<open>pop(0)\<close> returns.\<close>

fun pop_heads :: "nat \<Rightarrow> guild_id \<Rightarrow> cog \<Rightarrow> (url list \<times> cog) option" where
  "pop_heads 0 g s = Some ([], s)"
| "pop_heads (Suc n) g s =
     (case queue_pop g s of
        None \<Rightarrow> None
      | Some (u, s1) \<Rightarrow>
          (case pop_heads n g s1 of
             None \<Rightarrow> None
           | Some (us, s2) \<Rightarrow> Some (u # us, s2)))"

definition append_all :: "guild_id \<Rightarrow> url list \<Rightarrow> cog \<Rightarrow> cog" where
  "append_all g us s = foldl (\<lambda>s' u. queue_append g u s') s us"

section \<open>Preloader\<close>

text \<open>Python truth of an optional string: \<^verbatim>\<open>None\<close> and \<^verbatim>\<open>''\<close> are falsy.\<close>

fun truthy :: "string option \<Rightarrow> bool" where
  "truthy None = False"
| "truthy (Some t) = (t \<noteq> [])"

text \<open>\<^verbatim>\<open>a or b\<close> on optional strings.\<close>

definition py_or :: "string option \<Rightarrow> string option \<Rightarrow> string option" where
  "py_or a b = (if truthy a then a else b)"

text \<open>
  The selection loop of \<^verbatim>\<open>_preload_song\<close> over \<^verbatim>\<open>info['formats']\<close>. The outer \<open>None\<close> is
  an exception raised by \<^verbatim>\<open>int(...)\<close>; the comparison is evaluated only when a best format
  is already held.
\<close>

fun best_format_loop :: "audio_format option \<Rightarrow> audio_format list \<Rightarrow> audio_format option option" where
  "best_format_loop best [] = Some best"
| "best_format_loop best (f # fs) =
     (if acodec f \<noteq> Some ''none'' then
        (case best of
           None \<Rightarrow> best_format_loop (Some f) fs
         | Some b \<Rightarrow>
             (case abr_key f of
                None \<Rightarrow> None
              | Some x \<Rightarrow>
                  (case abr_key b of
                     None \<Rightarrow> None
                   | Some y \<Rightarrow> best_format_loop (if x > y then Some f else best) fs)))
      else best_format_loop best fs)"

text \<open>
  Lines 237 to 245: the stream URL of the result. The outer \<open>None\<close> is an exception (from
  the loop, or the \<^verbatim>\<open>KeyError\<close> of \<^verbatim>\<open>best_format['url']\<close>).
\<close>

definition select_audio_url :: "info \<Rightarrow> string option option" where
  "select_audio_url i =
     (if \<not> truthy (info_url i) \<and> info_formats i \<noteq> None \<and> info_formats i \<noteq> Some [] then
        (case best_format_loop None (the (info_formats i)) of
           None \<Rightarrow> None
         | Some None \<Rightarrow> Some (info_url i)
         | Some (Some b) \<Rightarrow>
             (case format_url b of None \<Rightarrow> None | Some a \<Rightarrow> Some (Some a)))
      else Some (info_url i))"

definition meta_of_info :: "info \<Rightarrow> track_meta" where
  "meta_of_info i =
     \<lparr>meta_title = (case info_title i of None \<Rightarrow> ''Unknown'' | Some t \<Rightarrow> t),
      meta_duration = (case info_duration i of None \<Rightarrow> 0 | Some d \<Rightarrow> d),
      meta_webpage_url = None\<rparr>"

text \<open>
  \<^verbatim>\<open>_preload_song\<close> of \<^verbatim>\<open>musicnowerror.py\<close>. Every exception is caught inside and turned
  into the result \<^verbatim>\<open>None\<close>.
\<close>

definition preload_song :: "env \<Rightarrow> url \<Rightarrow> cog \<Rightarrow> audio_entry option \<times> cog" where
  "preload_song env u s =
     (case audio_cache s u of
        Some e \<Rightarrow> (Some e, s)
      | None \<Rightarrow>
          (let s1 = emit (ExtractInfo PreloadYtdl u) s in
           case extract_info env (now s) PreloadYtdl u of
             Raises m \<Rightarrow> (None, s1)
           | Returned None \<Rightarrow> (None, s1)
           | Returned (Some i) \<Rightarrow>
               (let s2 = s1\<lparr>title_cache := (title_cache s1)(u \<mapsto> meta_of_info i)\<rparr> in
                case select_audio_url i of
                  None \<Rightarrow> (None, s2)
                | Some a \<Rightarrow>
                    (if \<not> truthy a then (None, s2)
                     else
                       (let s3 = emit (OpenStream (the a)) s2 in
                        if open_stream env (now s2) (the a) then
                          (let e = \<lparr>entry_source = PCMVolumeTransformer (the a),
                                    entry_info = i, created_at = now s3\<rparr>
                           in (Some e, s3\<lparr>audio_cache := (audio_cache s3)(u \<mapsto> e)\<rparr>))
                        else (None, s3))))))"

text \<open>
  The older \<^verbatim>\<open>_preload_song\<close> of \<^verbatim>\<open>musicold.py\<close>: the formats with an audio codec are
  sorted by bitrate, highest first, and the first is taken. Python's sort is stable also
  with \<^verbatim>\<open>reverse=True\<close>, so formats of equal bitrate keep their order.
\<close>

definition sort_desc :: "('a \<Rightarrow> int) \<Rightarrow> 'a list \<Rightarrow> 'a list" where
  "sort_desc k xs = rev (sort_key k (rev xs))"

definition select_audio_url_old :: "info \<Rightarrow> string option option" where
  "select_audio_url_old i =
     (if \<not> truthy (info_url i) \<and> info_formats i \<noteq> None then
        (let fs = filter (\<lambda>f. acodec f \<noteq> Some ''none'') (the (info_formats i)) in
         if fs = [] then Some (info_url i)
         else if \<exists>f \<in> set fs. abr_key f = None then None
         else
           (case format_url (hd (sort_desc (\<lambda>f. the (abr_key f)) fs)) of
              None \<Rightarrow> None
            | Some a \<Rightarrow> Some (Some a)))
      else Some (info_url i))"

definition preload_song_old :: "env \<Rightarrow> url \<Rightarrow> cog \<Rightarrow> audio_entry option \<times> cog" where
  "preload_song_old env u s =
     (case audio_cache s u of
        Some e \<Rightarrow> (Some e, s)
      | None \<Rightarrow>
          (let s1 = emit (ExtractInfo CogYtdl u) s in
           case extract_info env (now s) CogYtdl u of
             Raises m \<Rightarrow> (None, emit (LogError (''Error preloading '' @ u)) s1)
           | Returned None \<Rightarrow> (None, s1)
           | Returned (Some i) \<Rightarrow>
               (let s2 = s1\<lparr>title_cache := (title_cache s1)(u \<mapsto> meta_of_info i)\<rparr> in
                case select_audio_url_old i of
                  None \<Rightarrow> (None, emit (LogError (''Error preloading '' @ u)) s2)
                | Some a \<Rightarrow>
                    (if \<not> truthy a then (None, s2)
                     else
                       (let s3 = emit (OpenStream (the a)) s2 in
                        if open_stream env (now s2) (the a) then
                          (let e = \<lparr>entry_source = FFmpegOpusAudio (the a),
                                    entry_info = i, created_at = now s3\<rparr>
                           in (Some e, s3\<lparr>audio_cache := (audio_cache s3)(u \<mapsto> e)\<rparr>))
                        else (None, emit (LogError (''Error preloading '' @ u)) s3))))))"

section \<open>Playback sequencer\<close>

text \<open>\<^verbatim>\<open>max_retries = 3\<close> of \<^verbatim>\<open>play_next\<close>.\<close>

definition max_retries :: nat where
  "max_retries = 3"

text \<open>How the retry loop of \<^verbatim>\<open>play_next\<close> is left.\<close>

datatype attempt_result =
    Played          \<comment> \<open>playback started: \<^verbatim>\<open>return\<close> at line 321\<close>
  | Skipped         \<comment> \<open>the head was dropped at line 332; \<^verbatim>\<open>play_next\<close> is called again\<close>
  | Failed string   \<comment> \<open>an exception leaves the loop for the handler at line 337\<close>
  | LoopExit        \<comment> \<open>the condition of the \<^verbatim>\<open>while\<close> is false\<close>

text \<open>
  Lines 299 to 321, the rest of the \<^verbatim>\<open>try\<close> body once \<^verbatim>\<open>cached_data\<close> is set: \<open>False\<close>
  is an exception caught at line 327 (no audio data, \<^verbatim>\<open>pop\<close> on an empty list, or the
  player refusing the source). A cached entry and its source are objects, hence truthy.
\<close>

definition try_play :: "env \<Rightarrow> guild_id \<Rightarrow> channel option \<Rightarrow> audio_entry option \<Rightarrow> cog \<Rightarrow> bool \<times> cog" where
  "try_play env g ch cached s =
     (case cached of
        None \<Rightarrow> (False, s)
      | Some e \<Rightarrow>
          (case queue_pop g s of
             None \<Rightarrow> (False, s)
           | Some (u, s1) \<Rightarrow>
               (let s2 = emit (VoicePlay g (entry_source e)) s1 in
                case voice_play env (now s1) g (entry_source e) of
                  Some m \<Rightarrow> (False, s2)
                | None \<Rightarrow>
                    (True, emit (CreateTask (PreloadNextTracks g))
                       (notify ch (''Now playing: '' @ meta_title (meta_of_info (entry_info e))) s2)))))"

text \<open>Lines 330 to 334: the handler once \<^verbatim>\<open>retry_count\<close> has reached \<^verbatim>\<open>max_retries\<close>.\<close>

definition give_up :: "guild_id \<Rightarrow> channel option \<Rightarrow> cog \<Rightarrow> attempt_result \<times> cog" where
  "give_up g ch s =
     (let s1 = notify ch ''Failed to play track after 3 attempts. Skipping...'' s in
      case queue_pop g s1 of
        None \<Rightarrow> (Failed ''pop from empty list'', s1)
      | Some (v, s2) \<Rightarrow> (Skipped, s2))"

text \<open>
  The \<^verbatim>\<open>while retry_count < max_retries\<close> loop, lines 294 to 335. \<^verbatim>\<open>cached_data\<close> is kept
  from one iteration to the next.
\<close>

function attempt_loop ::
  "env \<Rightarrow> guild_id \<Rightarrow> channel option \<Rightarrow> url \<Rightarrow> audio_entry option \<Rightarrow> nat \<Rightarrow> cog \<Rightarrow> attempt_result \<times> cog" where
  "attempt_loop env g ch u cached retry_count s =
     (if retry_count < max_retries then
        (let (cached1, s1) = (case cached of None \<Rightarrow> preload_song env u s | Some e \<Rightarrow> (Some e, s));
             (ok, s2) = try_play env g ch cached1 s1
         in if ok then (Played, s2)
            else if retry_count + 1 \<ge> max_retries then
              give_up g ch s2
            else attempt_loop env g ch u cached1 (retry_count + 1) (emit (Sleep 1) s2))
      else (LoopExit, s))"
  by pat_completeness auto
termination
  by (relation "measure (\<lambda>(env, g, ch, u, cached, rc, s). max_retries - rc)") auto

declare attempt_loop.simps [simp del]

text \<open>
  One activation of \<^verbatim>\<open>play_next\<close> up to its recursive call: \<open>True\<close> means that the
  activation ends by calling \<^verbatim>\<open>play_next\<close> again (lines 333 and 343).
\<close>

definition play_next_body :: "env \<Rightarrow> guild_id \<Rightarrow> channel option \<Rightarrow> cog \<Rightarrow> bool \<times> cog" where
  "play_next_body env g ch s =
     (if \<not> voice_connected env (now s) g then (False, s)
      else
        (let (q, s1) = get_queue g s in
         case q of
           [] \<Rightarrow> (False, notify ch ''Queue finished!'' s1)
         | u # rest \<Rightarrow>
             (case attempt_loop env g ch u (audio_cache s1 u) 0 s1 of
                (Played, s2) \<Rightarrow> (False, s2)
              | (Skipped, s2) \<Rightarrow> (True, s2)
              | (LoopExit, s2) \<Rightarrow> (False, s2)
              | (Failed m, s2) \<Rightarrow>
                  (let s3 = notify ch (''Error playing song: '' @ m) s2 in
                   case queue_pop g s3 of
                     None \<Rightarrow> (False, s3)
                   | Some (v, s4) \<Rightarrow> (True, s4)))))"

text \<open>The length of a guild's queue, the measure under which \<^verbatim>\<open>play_next\<close> terminates.\<close>

definition qlen :: "guild_id \<Rightarrow> cog \<Rightarrow> nat" where
  "qlen g s = (case queues s g of None \<Rightarrow> 0 | Some q \<Rightarrow> length q)"

lemma qlen_emit [simp]: "qlen g (emit e s) = qlen g s"
  by (simp add: qlen_def emit_def)

lemma qlen_notify [simp]: "qlen g (notify ch m s) = qlen g s"
  by (simp add: notify_def split: option.splits)

lemma queues_preload_song [simp]: "queues (snd (preload_song env u s)) = queues s"
  by (auto simp: preload_song_def emit_def Let_def split: option.splits extract_outcome.splits)

lemma qlen_preload_song [simp]: "qlen g (snd (preload_song env u s)) = qlen g s"
  by (simp add: qlen_def)

lemma qlen_queue_pop: "queue_pop g s = Some (u, s') \<Longrightarrow> qlen g s' < qlen g s"
  by (auto simp: queue_pop_def get_queue_def qlen_def split: option.splits list.splits)

lemma qlen_try_play: "qlen g (snd (try_play env g ch cached s)) \<le> qlen g s"
  by (auto simp: try_play_def Let_def dest: qlen_queue_pop split: option.splits)

lemma qlen_give_up:
  "qlen g (snd (give_up g ch s)) \<le> qlen g s \<and>
   (fst (give_up g ch s) = Skipped \<longrightarrow> qlen g (snd (give_up g ch s)) < qlen g s)"
  by (auto simp: give_up_def Let_def split: option.splits dest!: qlen_queue_pop)


lemma qlen_attempt_loop:
  "qlen g (snd (attempt_loop env g ch u cached rc s)) \<le> qlen g s \<and>
   (fst (attempt_loop env g ch u cached rc s) = Skipped \<longrightarrow>
      qlen g (snd (attempt_loop env g ch u cached rc s)) < qlen g s)"
proof (induction env g ch u cached rc s rule: attempt_loop.induct)
  case (1 env g ch u cached rc s)
  obtain cached1 s1 where c: "(case cached of None \<Rightarrow> preload_song env u s | Some e \<Rightarrow> (Some e, s)) = (cached1, s1)"
    by (cases "(case cached of None \<Rightarrow> preload_song env u s | Some e \<Rightarrow> (Some e, s))") auto
  obtain ok s2 where t: "try_play env g ch cached1 s1 = (ok, s2)"
    by (cases "try_play env g ch cached1 s1") auto
  have q1: "qlen g s1 = qlen g s"
  proof (cases cached)
    case None
    with c have "s1 = snd (preload_song env u s)" by simp
    then show ?thesis by simp
  next
    case (Some e)
    with c show ?thesis by simp
  qed
  have q2: "qlen g s2 \<le> qlen g s1"
    using qlen_try_play[of g env ch cached1 s1] t by simp
  show ?case
  proof (cases "rc < max_retries")
    case False
    then show ?thesis by (subst attempt_loop.simps, subst (2) attempt_loop.simps, subst (3) attempt_loop.simps) simp
  next
    case True
    note IH = 1[OF True refl c[symmetric] refl t[symmetric]]
    show ?thesis
    proof (cases "ok \<or> rc + 1 \<ge> max_retries")
      case True
      have "attempt_loop env g ch u cached rc s = (if ok then (Played, s2) else give_up g ch s2)"
        using \<open>rc < max_retries\<close> c t True by (subst attempt_loop.simps) auto
      with q1 q2 qlen_give_up[of g ch s2] show ?thesis
        by (cases ok) auto
    next
      case False
      with IH have "qlen g (snd (attempt_loop env g ch u cached1 (rc + 1) (emit (Sleep 1) s2))) \<le> qlen g (emit (Sleep 1) s2) \<and>
        (fst (attempt_loop env g ch u cached1 (rc + 1) (emit (Sleep 1) s2)) = Skipped \<longrightarrow>
          qlen g (snd (attempt_loop env g ch u cached1 (rc + 1) (emit (Sleep 1) s2))) < qlen g (emit (Sleep 1) s2))"
        by simp
      moreover have "attempt_loop env g ch u cached rc s = attempt_loop env g ch u cached1 (rc + 1) (emit (Sleep 1) s2)"
        using \<open>rc < max_retries\<close> c t False by (subst attempt_loop.simps) simp
      ultimately show ?thesis using q1 q2 by auto
    qed
  qed
qed

lemma play_next_body_decreases:
  "play_next_body env g ch s = (True, s') \<Longrightarrow> qlen g s' < qlen g s"
proof -
  assume a: "play_next_body env g ch s = (True, s')"
  obtain q s1 where gq: "get_queue g s = (q, s1)" by (cases "get_queue g s") auto
  have q1: "qlen g s1 = qlen g s"
    using gq by (auto simp: get_queue_def qlen_def split: option.splits)
  show ?thesis
  proof (cases q)
    case Nil
    with a gq show ?thesis by (auto simp: play_next_body_def split: if_splits)
  next
    case (Cons u rest)
    obtain r s2 where al: "attempt_loop env g ch u (audio_cache s1 u) 0 s1 = (r, s2)"
      by (cases "attempt_loop env g ch u (audio_cache s1 u) 0 s1") auto
    from qlen_attempt_loop[of g env ch u "audio_cache s1 u" 0 s1] al
    have le: "qlen g s2 \<le> qlen g s1" and lt: "r = Skipped \<Longrightarrow> qlen g s2 < qlen g s1" by auto
    from a gq Cons al le lt q1 show ?thesis
      by (cases r) (auto simp: play_next_body_def Let_def split: if_splits option.splits dest!: qlen_queue_pop)
  qed
qed

function play_next :: "env \<Rightarrow> guild_id \<Rightarrow> channel option \<Rightarrow> cog \<Rightarrow> cog" where
  "play_next env g ch s =
     (case play_next_body env g ch s of
        (False, s') \<Rightarrow> s'
      | (True, s') \<Rightarrow> play_next env g ch s')"
  by pat_completeness auto
termination
  by (relation "measure (\<lambda>(env, g, ch, s). qlen g s)") (auto dest: play_next_body_decreases[OF sym])

declare play_next.simps [simp del]

section \<open>Python strings\<close>

text \<open>
  Strings are lists of 8-bit characters. The texts that matter here (error messages of
  the resolver, links, queries) are taken to be ASCII; \<^verbatim>\<open>str.lower\<close> is modelled on the
  ASCII letters and leaves every other character as it is. The pictographs that open
  some of the messages and titles of the source, and the bullet that opens each line of
  a list of titles, are not ASCII and are left out of the modelled texts.
\<close>

text \<open>\<^verbatim>\<open>t.startswith(p)\<close>.\<close>

definition starts_with :: "string \<Rightarrow> string \<Rightarrow> bool" where
  "starts_with p t = (take (length p) t = p)"

text \<open>\<^verbatim>\<open>sub in t\<close>.\<close>

fun contains :: "string \<Rightarrow> string \<Rightarrow> bool" where
  "contains sub [] = (sub = [])"
| "contains sub (c # cs) = (starts_with sub (c # cs) \<or> contains sub cs)"

definition lower_char :: "char \<Rightarrow> char" where
  "lower_char c =
     (case map_of (zip ''ABCDEFGHIJKLMNOPQRSTUVWXYZ'' ''abcdefghijklmnopqrstuvwxyz'') c of
        None \<Rightarrow> c
      | Some l \<Rightarrow> l)"

text \<open>\<^verbatim>\<open>t.lower()\<close>.\<close>

definition py_lower :: "string \<Rightarrow> string" where
  "py_lower t = map lower_char t"

text \<open>
  \<^verbatim>\<open>t.split(sep)\<close> is \<open>py_split sep [] t\<close>: \<open>cur\<close> collects the piece being read. The
  source only splits at the constant separators \<^verbatim>\<open>'/'\<close>, \<^verbatim>\<open>'?'\<close> and \<^verbatim>\<open>'track/'\<close>.
\<close>

function py_split :: "string \<Rightarrow> string \<Rightarrow> string \<Rightarrow> string list" where
  "py_split sep cur t =
     (if t = [] then [cur]
      else if sep \<noteq> [] \<and> starts_with sep t then cur # py_split sep [] (drop (length sep) t)
      else py_split sep (cur @ [hd t]) (tl t))"
  by pat_completeness auto
termination
  by (relation "measure (\<lambda>(sep, cur, t). length t)") auto

declare py_split.simps [simp del]

text \<open>\<^verbatim>\<open>sep.join(xs)\<close>.\<close>

fun py_join :: "string \<Rightarrow> string list \<Rightarrow> string" where
  "py_join sep [] = []"
| "py_join sep [x] = x"
| "py_join sep (x # y # ys) = x @ sep @ py_join sep (y # ys)"

definition digit_char :: "nat \<Rightarrow> char" where
  "digit_char d = ''0123456789'' ! d"

fun str_nat :: "nat \<Rightarrow> string" where
  "str_nat n = (if n < 10 then [digit_char n] else str_nat (n div 10) @ [digit_char (n mod 10)])"

declare str_nat.simps [simp del]

text \<open>\<^verbatim>\<open>str(i)\<close> and the format \<^verbatim>\<open>{i:02d}\<close> of an integer.\<close>

definition py_str :: "int \<Rightarrow> string" where
  "py_str i = (if i < 0 then CHR ''-'' # str_nat (nat (- i)) else str_nat (nat i))"

definition fmt_02d :: "int \<Rightarrow> string" where
  "fmt_02d i = (if length (py_str i) < 2 then CHR ''0'' # py_str i else py_str i)"

definition newline :: string where
  "newline = [CHR 0x0A]"

section \<open>Rendering the queue\<close>

text \<open>
  \<^verbatim>\<open>f" ({duration//60}:{duration%60:02d})" if duration else ""\<close>. Durations are integers
  (the data model's seconds); \<open>0\<close> also stands for a missing or \<^verbatim>\<open>None\<close> duration, which
  is falsy as well.
\<close>

definition duration_str :: "int \<Rightarrow> string" where
  "duration_str d =
     (if d \<noteq> 0 then '' ('' @ py_str (d div 60) @ '':'' @ fmt_02d (d mod 60) @ '')'' else [])"

text \<open>
  Lines 687 to 691, one line of the list: the number in backquotes, the cached title
  (\<^verbatim>\<open>'Loading...'\<close> for a reference with no title-cache entry) and the duration.
\<close>

definition queue_line :: "(url \<rightharpoonup> track_meta) \<Rightarrow> nat \<Rightarrow> url \<Rightarrow> string" where
  "queue_line tc i u =
     (let title = (case tc u of None \<Rightarrow> ''Loading...'' | Some m \<Rightarrow> meta_title m);
          duration = (case tc u of None \<Rightarrow> 0 | Some m \<Rightarrow> meta_duration m)
      in [CHR 0x60] @ py_str (int i) @ ''.'' @ [CHR 0x60] @ '' '' @ title @ duration_str duration)"

text \<open>\<^verbatim>\<open>for i, url in enumerate(queue[:10], 1)\<close>, started at index \<open>i\<close>.\<close>

fun queue_text_loop :: "(url \<rightharpoonup> track_meta) \<Rightarrow> nat \<Rightarrow> url list \<Rightarrow> string list" where
  "queue_text_loop tc i [] = []"
| "queue_text_loop tc i (u # us) = queue_line tc i u # queue_text_loop tc (i + 1) us"

text \<open>
  Lines 682 to 714 of the \<^verbatim>\<open>queue\<close> command: the fields added after the one for the
  current track. With integer durations no statement of this part raises.
\<close>

definition up_next_fields :: "(url \<rightharpoonup> track_meta) \<Rightarrow> url list \<Rightarrow> embed_field list" where
  "up_next_fields tc q =
     (if q \<noteq> [] then
        (let queue_text = queue_text_loop tc 1 (take 10 q) in
         (if queue_text \<noteq> [] then
            [\<lparr>field_name = ''Up Next'', field_value = py_join newline queue_text,
              field_inline = False\<rparr>]
          else []) @
         (if length q > 10 then
            [\<lparr>field_name = ''And more...'',
              field_value = ''*'' @ py_str (int (length q) - 10) @ '' more songs in queue*'',
              field_inline = False\<rparr>]
          else []))
      else
        [\<lparr>field_name = ''Up Next'', field_value = ''*No songs in queue*'',
          field_inline = False\<rparr>])"

text \<open>
  The embed of the \<^verbatim>\<open>queue\<close> command for a guild. Lines 620 to 680 add exactly one
  field, named \<^verbatim>\<open>Now Playing\<close>, on every path; it is the parameter \<open>np\<close>.
\<close>

definition queue_embed :: "embed_field \<Rightarrow> guild_id \<Rightarrow> cog \<Rightarrow> embed \<times> cog" where
  "queue_embed np g s =
     (let (q, s1) = get_queue g s in
      (\<lparr>embed_title = ''Music Queue'',
        embed_fields = np # up_next_fields (title_cache s1) q\<rparr>, s1))"

section \<open>Classifying a resolver error\<close>

text \<open>What \<^verbatim>\<open>play\<close> does with an exception of its resolver call (lines 423 to 471).\<close>

datatype error_action =
    DrmFallback           \<comment> \<open>search for an alternative source\<close>
  | Reply string          \<comment> \<open>send this classified message\<close>
  | Unclassified string   \<comment> \<open>log the error and surface its raw text\<close>

definition classify_error :: "string \<Rightarrow> error_action" where
  "classify_error e =
     (let error_msg = py_lower e in
      if contains ''[drm]'' error_msg \<or> contains ''drm protection'' error_msg then DrmFallback
      else if contains ''video unavailable'' error_msg then
        Reply ''This video is unavailable or private.''
      else if contains ''sign in to confirm your age'' error_msg then
        Reply ''This content is age-restricted.''
      else if contains ''not a supported url'' error_msg then
        Reply ''This URL is not supported. Try using a direct link to the content.''
      else if contains ''geo restriction'' error_msg then
        Reply ''This content is not available in the current region.''
      else if contains ''network error'' error_msg \<or> contains ''connection error'' error_msg then
        Reply ''Network error occurred. Please check your connection and try again.''
      else Unclassified e)"




section \<open>Alternative-source search\<close>

text \<open>
  \<^verbatim>\<open>_extract_song_info\<close> fetches the page of the link and matches patterns on its text; it
  catches every exception and always returns a triple of artist, title and search
  phrase. The triple is taken from the environment.
\<close>

definition extract_song_info :: "env \<Rightarrow> string \<Rightarrow> cog \<Rightarrow> (string \<times> string \<times> string) \<times> cog" where
  "extract_song_info env query s = (song_info env (now s) query, emit (ExtractSongInfo query) s)"

text \<open>
  \<^verbatim>\<open>re.search(r'<title>(.*?) \| Spotify</title>', html)\<close>, returning group 1: the leftmost
  \<^verbatim>\<open><title>\<close> from which the shortest run of characters other than a line break leads to
  the closing text.
\<close>

fun lazy_until :: "string \<Rightarrow> string \<Rightarrow> string option" where
  "lazy_until pat [] = (if pat = [] then Some [] else None)"
| "lazy_until pat (c # cs) =
     (if starts_with pat (c # cs) then Some []
      else if c = CHR 0x0A then None
      else map_option ((#) c) (lazy_until pat cs))"

fun search_spotify_title :: "string \<Rightarrow> string option" where
  "search_spotify_title [] = None"
| "search_spotify_title (c # cs) =
     (if starts_with ''<title>'' (c # cs) then
        (case lazy_until '' | Spotify</title>'' (drop 7 (c # cs)) of
           Some t \<Rightarrow> Some t
         | None \<Rightarrow> search_spotify_title cs)
      else search_spotify_title cs)"

text \<open>\<^verbatim>\<open>f'https://open.spotify.com/track/{query.split('track/')[-1].split('?')[0]}'\<close>.\<close>

definition refetch_url :: "string \<Rightarrow> string" where
  "refetch_url query =
     ''https://open.spotify.com/track/'' @ hd (py_split ''?'' [] (last (py_split ''track/'' [] query)))"

text \<open>
  Lines 157 to 168 of \<^verbatim>\<open>_try_alternative_source\<close>: the search phrase with which the
  search starts. \<open>None\<close> is an exception of the page request, caught at line 207.
\<close>

definition search_phrase :: "env \<Rightarrow> string \<Rightarrow> cog \<Rightarrow> string option \<times> cog" where
  "search_phrase env query s =
     (let ((artist, title, search_query), s1) = extract_song_info env query s in
      if search_query = [] \<or> search_query = '' - Adventure Time! audio'' then
        (if contains ''spotify.com/track/'' query then
           (let s2 = emit (HttpGet (refetch_url query)) s1 in
            case http_get env (now s1) (refetch_url query) of
              HttpRaises \<Rightarrow> (None, s2)
            | HttpResponse status html \<Rightarrow>
                (if status = 200 then
                   (case search_spotify_title html of
                      Some t \<Rightarrow> (Some t, s2)
                    | None \<Rightarrow> (Some search_query, s2))
                 else (Some search_query, s2)))
         else (Some search_query, s1))
      else (Some search_query, s1))"

text \<open>
  Lines 186 to 199: the search terms in order; a term whose search raises, or yields no
  first entry with a page URL, is passed over.
\<close>

fun search_terms_loop :: "env \<Rightarrow> string list \<Rightarrow> cog \<Rightarrow> (string \<times> string) option \<times> cog" where
  "search_terms_loop env [] s = (None, s)"
| "search_terms_loop env (term # terms) s =
     (let s1 = emit (ExtractInfo SearchYtdl (''ytsearch1:'' @ term)) s in
      case extract_info env (now s) SearchYtdl (''ytsearch1:'' @ term) of
        Raises m \<Rightarrow> search_terms_loop env terms s1
      | Returned None \<Rightarrow> search_terms_loop env terms s1
      | Returned (Some i) \<Rightarrow>
          (case info_entries i of
             Some (Some v # rest) \<Rightarrow>
               (if truthy (entry_webpage_url v) then
                  (Some (the (entry_webpage_url v),
                         ''Found alternative: '' @
                           (case entry_title v of None \<Rightarrow> ''Unknown'' | Some t \<Rightarrow> t)), s1)
                else search_terms_loop env terms s1)
           | _ \<Rightarrow> search_terms_loop env terms s1))"

definition try_alternative_source ::
  "env \<Rightarrow> string \<Rightarrow> cog \<Rightarrow> (bool \<times> string \<times> string) \<times> cog" where
  "try_alternative_source env query s =
     (case search_phrase env query s of
        (None, s1) \<Rightarrow> ((False, [], ''Error searching for alternative''), s1)
      | (Some search_query, s1) \<Rightarrow>
          (if search_query = [] then ((False, [], ''Could not extract song information''), s1)
           else
             (case search_terms_loop env
                     [search_query @ '' official audio'', search_query @ '' lyrics'', search_query] s1 of
                (Some (u, message), s2) \<Rightarrow> ((True, u, message), s2)
              | (None, s2) \<Rightarrow> ((False, [], ''Could not find an alternative source''), s2))))"

section \<open>The play command\<close>

text \<open>
  Lines 386 to 413 of \<^verbatim>\<open>play\<close>: the query handed to the resolver, \<open>None\<close> when the command
  returns at line 404. \<^verbatim>\<open>is_playlist\<close> is computed from the query as typed.
\<close>

definition route_query :: "env \<Rightarrow> string \<Rightarrow> cog \<Rightarrow> string option \<times> cog" where
  "route_query env query s =
     (let is_url = (starts_with ''http://'' query \<or> starts_with ''https://'' query);
          is_playlist = (contains ''playlist'' query \<or> contains ''list='' query);
          is_spotify = contains ''spotify.com'' (py_lower query);
          is_apple_music = contains ''music.apple.com'' (py_lower query);
          (r, s1) =
            (if is_spotify \<or> is_apple_music then
               (let s1 = emit (Send Followup ''Processing link... Searching for alternative source...'') s;
                    ((success, alt_url, message), s2) = try_alternative_source env query s1
                in if success then (Some alt_url, emit (Send Followup message) s2)
                   else
                     (let ((artist, title, search_query), s3) = extract_song_info env query s2
                      in if search_query \<noteq> [] then
                           (Some (''ytsearch1:'' @ search_query),
                            emit (Send Followup (''Searching for: '' @ title)) s3)
                         else (None, emit (Send Followup ''Could not extract song information.'') s3)))
             else if \<not> is_url then
               (Some (''ytsearch:'' @ query), emit (Send Followup (''Searching for: '' @ query)) s)
             else if contains ''youtu.be'' query then
               (Some (''https://www.youtube.com/watch?v='' @
                        hd (py_split ''?'' [] (last (py_split ''/'' [] query)))), s)
             else (Some query, s))
      in case r of
           None \<Rightarrow> (None, s1)
         | Some q \<Rightarrow>
             (Some q,
              if is_playlist then
                emit (Send Followup ''Processing playlist... This might take a moment.'') s1
              else s1))"

text \<open>\<^verbatim>\<open>e.get('webpage_url') or e.get('url')\<close> and the test of line 487 on an entry.\<close>

definition entry_ref :: "entry \<Rightarrow> string option" where
  "entry_ref e = py_or (entry_webpage_url e) (entry_url e)"

fun resolvable :: "entry option \<Rightarrow> bool" where
  "resolvable None = False"
| "resolvable (Some e) = truthy (entry_ref e)"

definition meta_of_entry :: "entry \<Rightarrow> url \<Rightarrow> track_meta" where
  "meta_of_entry e u =
     \<lparr>meta_title = (case entry_title e of None \<Rightarrow> ''Unknown'' | Some t \<Rightarrow> t),
      meta_duration = (case entry_duration e of None \<Rightarrow> 0 | Some d \<Rightarrow> d),
      meta_webpage_url = Some u\<rparr>"

text \<open>Lines 505 to 529: the card that lists the titles added from a playlist.\<close>

definition playlist_embed :: "string list \<Rightarrow> embed" where
  "playlist_embed added =
     \<lparr>embed_title = ''Playlist Added to Queue'',
      embed_fields =
        [\<lparr>field_name = ''Tracks Added'',
          field_value = py_str (int (length added)) @ '' songs'', field_inline = False\<rparr>,
         (if length added > 5 then
            \<lparr>field_name = ''First 5 Tracks'',
             field_value = py_join newline (take 5 added) @ newline @ ''*...and '' @
               py_str (int (length added) - 5) @ '' more*'',
             field_inline = False\<rparr>
          else
            \<lparr>field_name = ''Track List'', field_value = py_join newline added,
             field_inline = False\<rparr>)]\<rparr>"

text \<open>
  Lines 480 to 531, the branch for a result with \<^verbatim>\<open>'entries'\<close>: the query joins the guild's
  pending playlists, and the first resolvable entry alone is appended to the queue, with
  its metadata cached and the background expansion scheduled.
\<close>

definition enqueue_playlist ::
  "guild_id \<Rightarrow> channel option \<Rightarrow> string \<Rightarrow> entry option list \<Rightarrow> cog \<Rightarrow> cog" where
  "enqueue_playlist g ch query entries s =
     (let s1 = s\<lparr>pending_playlists := (pending_playlists s)
                  (g \<mapsto> (case pending_playlists s g of None \<Rightarrow> [] | Some ps \<Rightarrow> ps) @ [query])\<rparr>
      in case find resolvable entries of
           Some (Some e) \<Rightarrow>
             (let u = the (entry_ref e);
                  s2 = queue_append g u s1;
                  s3 = s2\<lparr>title_cache := (title_cache s2)(u \<mapsto> meta_of_entry e u)\<rparr>;
                  s4 = emit (CreateTask (ProcessPendingPlaylists g ch)) s3
              in emit (SendEmbed Followup
                         (playlist_embed [case entry_title e of None \<Rightarrow> ''Unknown'' | Some t \<Rightarrow> t])) s4)
         | _ \<Rightarrow> emit (Send Followup ''No playable tracks found in playlist'') s1)"

text \<open>Lines 533 to 566, a single track; \<open>False\<close> is the \<^verbatim>\<open>return\<close> of line 540.\<close>

definition enqueue_track :: "guild_id \<Rightarrow> info \<Rightarrow> cog \<Rightarrow> bool \<times> cog" where
  "enqueue_track g i s =
     (let u = py_or (info_webpage_url i) (info_url i);
          title = (case info_title i of None \<Rightarrow> ''Unknown'' | Some t \<Rightarrow> t);
          duration = (case info_duration i of None \<Rightarrow> 0 | Some d \<Rightarrow> d)
      in if \<not> truthy u then (False, emit (Send Followup ''Could not process the track!'') s)
         else
           (let s1 = queue_append g (the u) s;
                s2 = s1\<lparr>title_cache := (title_cache s1)
                       (the u \<mapsto> \<lparr>meta_title = title, meta_duration = duration,
                                  meta_webpage_url = Some (the u)\<rparr>)\<rparr>
            in (True, emit (SendEmbed Followup
                  \<lparr>embed_title = ''Track Added to Queue'',
                   embed_fields =
                     \<lparr>field_name = ''Title'', field_value = title, field_inline = False\<rparr> #
                     (if duration \<noteq> 0 then
                        [\<lparr>field_name = ''Duration'',
                          field_value = py_str (duration div 60) @ '':'' @ fmt_02d (duration mod 60),
                          field_inline = True\<rparr>]
                      else [])\<rparr>) s2)))"

text \<open>
  Lines 426 to 457: the fallback for a DRM-classified error. The alternative is resolved
  with \<^verbatim>\<open>self.ytdl\<close>, enqueued and, when nothing is playing, played.
\<close>

definition no_alternative_text :: string where
  "no_alternative_text =
     ''Could not find a playable alternative.'' @ newline @ newline @
     ''Try these options instead:'' @ newline @
     ''Use a regular YouTube link'' @ newline @
     ''Search by song name and artist'' @ newline @
     ''Try SoundCloud or other non-DRM sources''"

definition drm_fallback :: "env \<Rightarrow> guild_id \<Rightarrow> channel option \<Rightarrow> string \<Rightarrow> cog \<Rightarrow> cog" where
  "drm_fallback env g ch query s =
     (let s1 = emit (Send Followup ''DRM protection detected. Searching for alternative source...'') s;
          ((success, alt_url, message), s2) = try_alternative_source env query s1
      in if success then
           (let s3 = emit (ExtractInfo CogYtdl alt_url) s2 in
            case extract_info env (now s2) CogYtdl alt_url of
              Raises m \<Rightarrow> emit (Send Followup no_alternative_text) s3
            | Returned None \<Rightarrow> emit (Send Followup no_alternative_text) s3
            | Returned (Some i) \<Rightarrow>
                (let s4 = snd (get_queue g (emit (Send Followup message) s3));
                     u = py_or (info_webpage_url i) (info_url i)
                 in if truthy u then
                      (let s5 = queue_append g (the u) s4;
                           s6 = s5\<lparr>title_cache := (title_cache s5)(the u \<mapsto> meta_of_info i)\<rparr>
                       in if \<not> is_playing env (now s6) g then play_next env g ch s6 else s6)
                    else emit (Send Followup no_alternative_text) s4))
         else emit (Send Followup no_alternative_text) s2)"

text \<open>Lines 423 to 471: the handler of an exception of the resolver call.\<close>

definition on_resolver_error ::
  "env \<Rightarrow> guild_id \<Rightarrow> channel option \<Rightarrow> string \<Rightarrow> string \<Rightarrow> cog \<Rightarrow> cog" where
  "on_resolver_error env g ch query e s =
     (case classify_error e of
        DrmFallback \<Rightarrow> drm_fallback env g ch query s
      | Reply t \<Rightarrow> emit (Send Followup t) s
      | Unclassified m \<Rightarrow>
          emit (Send Followup (''Error loading content: '' @ m))
            (emit (LogError (''Error in play command with query: '' @ query)) s))"

text \<open>
  \<^verbatim>\<open>play\<close> for a guild and a caller in a voice channel (from line 380 on). An exception
  of \<^verbatim>\<open>connect\<close> reaches the handler of line 571. The channel is the interaction's.
\<close>

definition play_in_guild :: "env \<Rightarrow> guild_id \<Rightarrow> channel option \<Rightarrow> string \<Rightarrow> cog \<Rightarrow> cog" where
  "play_in_guild env g ch query s =
     (let connect_error =
            (if \<not> has_voice_client env (now s) g then voice_connect env (now s) g else None);
          s1 = (if \<not> has_voice_client env (now s) g then emit (VoiceConnect g) s else s)
      in case connect_error of
           Some m \<Rightarrow>
             emit (Send Followup (''An error occurred: '' @ m))
               (emit (LogError (''Error in play command: '' @ m)) s1)
         | None \<Rightarrow>
             (case route_query env query s1 of
                (None, s2) \<Rightarrow> s2
              | (Some q, s2) \<Rightarrow>
                  (let s3 = emit (ExtractInfo FlatYtdl q) s2 in
                   case extract_info env (now s2) FlatYtdl q of
                     Raises e \<Rightarrow> on_resolver_error env g ch q e s3
                   | Returned None \<Rightarrow> emit (Send Followup ''Could not find any playable audio!'') s3
                   | Returned (Some i) \<Rightarrow>
                       (let s4 = snd (get_queue g s3);
                            (continue, s5) =
                              (case info_entries i of
                                 Some entries \<Rightarrow> (True, enqueue_playlist g ch q entries s4)
                               | None \<Rightarrow> enqueue_track g i s4)
                        in if continue \<and> \<not> is_playing env (now s5) g then play_next env g ch s5
                           else s5))))"

record interaction =
  in_guild :: "guild_id option"
  user_in_voice :: bool
  in_channel :: "channel option"

definition play :: "env \<Rightarrow> interaction \<Rightarrow> string \<Rightarrow> cog \<Rightarrow> cog" where
  "play env ia query s =
     (case in_guild ia of
        None \<Rightarrow> emit (Send Response ''This command can only be used in a server!'') s
      | Some g \<Rightarrow>
          (if \<not> user_in_voice ia then
             emit (Send Response ''You need to be in a voice channel!'') s
           else play_in_guild env g (in_channel ia) query s))"

section \<open>Background playlist expansion\<close>

text \<open>
  The inner loop of \<^verbatim>\<open>process_pending_playlists\<close> (lines 84 to 94) over the entries it is
  given: each resolvable entry is cached and appended, and its preloading is scheduled
  when the queue then holds at most three references.
\<close>

fun expand_entries :: "guild_id \<Rightarrow> entry option list \<Rightarrow> cog \<Rightarrow> cog" where
  "expand_entries g [] s = s"
| "expand_entries g (x # xs) s =
     (if resolvable x then
        (let e = the x;
             u = the (entry_ref e);
             s1 = s\<lparr>title_cache := (title_cache s)(u \<mapsto> meta_of_entry e u)\<rparr>;
             s2 = queue_append g u s1;
             s3 = (if length (fst (get_queue g s2)) \<le> 3 then emit (CreateTask (PreloadSong u)) s2
                   else s2)
         in expand_entries g xs s3)
      else expand_entries g xs s)"

text \<open>
  Lines 76 to 98, the body of the outer loop for one pending playlist. An exception of
  the resolver is reported to the channel, when there is one, and the loop goes on.
\<close>

definition expand_playlist :: "env \<Rightarrow> guild_id \<Rightarrow> channel option \<Rightarrow> string \<Rightarrow> cog \<Rightarrow> cog" where
  "expand_playlist env g ch playlist_url s =
     (let s1 = emit (ExtractInfo CogYtdl playlist_url) s in
      case extract_info env (now s) CogYtdl playlist_url of
        Raises m \<Rightarrow> notify ch (''Error processing playlist: '' @ m) s1
      | Returned None \<Rightarrow> s1
      | Returned (Some i) \<Rightarrow>
          (case info_entries i of
             None \<Rightarrow> s1
           | Some entries \<Rightarrow> expand_entries g (drop 1 entries) (snd (get_queue g s1))))"

fun expand_playlists :: "env \<Rightarrow> guild_id \<Rightarrow> channel option \<Rightarrow> string list \<Rightarrow> cog \<Rightarrow> cog" where
  "expand_playlists env g ch [] s = s"
| "expand_playlists env g ch (p # ps) s = expand_playlists env g ch ps (expand_playlist env g ch p s)"

definition process_pending_playlists :: "env \<Rightarrow> guild_id \<Rightarrow> channel option \<Rightarrow> cog \<Rightarrow> cog" where
  "process_pending_playlists env g ch s =
     (case pending_playlists s g of
        None \<Rightarrow> s
      | Some ps \<Rightarrow>
          (let s1 = expand_playlists env g ch ps s
           in s1\<lparr>pending_playlists := (pending_playlists s1)(g \<mapsto> [])\<rparr>))"

text \<open>\<^verbatim>\<open>preload_next_tracks\<close> with its default \<^verbatim>\<open>count=2\<close>.\<close>

fun schedule_uncached :: "url list \<Rightarrow> cog \<Rightarrow> cog" where
  "schedule_uncached [] s = s"
| "schedule_uncached (u # us) s =
     schedule_uncached us (if audio_cache s u = None then emit (CreateTask (PreloadSong u)) s else s)"

definition preload_next_tracks :: "guild_id \<Rightarrow> nat \<Rightarrow> cog \<Rightarrow> cog" where
  "preload_next_tracks g count s =
     (let (q, s1) = get_queue g s in schedule_uncached (take (min count (length q)) q) s1)"

section \<open>Observations used in the properties\<close>

text \<open>A guild's queue as \<^verbatim>\<open>get_queue\<close> would return it.\<close>

definition the_queue :: "guild_id \<Rightarrow> cog \<Rightarrow> url list" where
  "the_queue g s = (case queues s g of None \<Rightarrow> [] | Some q \<Rightarrow> q)"

text \<open>How often the resolver of \<^verbatim>\<open>_preload_song\<close> was called for a reference.\<close>

definition resolver_calls :: "url \<Rightarrow> cog \<Rightarrow> nat" where
  "resolver_calls u s = length (filter (\<lambda>e. e = ExtractInfo PreloadYtdl u) (trace s))"

text \<open>A resolver that fails on every call, with a connected and willing player.\<close>

definition failing_env :: env where
  "failing_env = \<lparr>extract_info = (\<lambda>n y q. Raises ''Video unavailable''),
     open_stream = (\<lambda>n a. True), voice_connected = (\<lambda>n g. True),
     voice_play = (\<lambda>n g src. None), song_info = (\<lambda>n q. ([], [], [])),
     http_get = (\<lambda>n u. HttpRaises), has_voice_client = (\<lambda>n g. True),
     voice_connect = (\<lambda>n g. None), is_playing = (\<lambda>n g. True)\<rparr>"


text \<open>
  What a run of \<^verbatim>\<open>_preload_song\<close> that writes the audio cache looks like: the resolver
  returned a result, the stream source was then constructed from a stream URL, and only
  after that the entry, holding that source, was stored and returned.
\<close>

definition stream_built :: "env \<Rightarrow> ytdl \<Rightarrow> (string \<Rightarrow> source) \<Rightarrow> url \<Rightarrow> cog \<Rightarrow> audio_entry option \<times> cog \<Rightarrow> bool" where
  "stream_built env y mk u s r \<longleftrightarrow>
     (\<exists>a i. extract_info env (now s) y u = Returned (Some i) \<and>
        open_stream env (now s + 1) a \<and>
        trace (snd r) = trace s @ [ExtractInfo y u, OpenStream a] \<and>
        fst r = Some \<lparr>entry_source = mk a, entry_info = i, created_at = now s + 2\<rparr> \<and>
        audio_cache (snd r) = (audio_cache s)(u \<mapsto> \<lparr>entry_source = mk a, entry_info = i, created_at = now s + 2\<rparr>))"

text \<open>A resolver whose result has a title but neither a stream URL nor formats.\<close>

definition no_stream_info :: info where
  "no_stream_info = \<lparr>info_title = Some ''Song'', info_duration = Some 95,
     info_webpage_url = Some ''https://example.org/w'', info_url = None,
     info_formats = None, info_entries = None\<rparr>"

definition no_stream_env :: env where
  "no_stream_env = \<lparr>extract_info = (\<lambda>n y q. Returned (Some no_stream_info)),
     open_stream = (\<lambda>n a. True), voice_connected = (\<lambda>n g. True),
     voice_play = (\<lambda>n g src. None), song_info = (\<lambda>n q. ([], [], [])),
     http_get = (\<lambda>n u. HttpRaises), has_voice_client = (\<lambda>n g. True),
     voice_connect = (\<lambda>n g. None), is_playing = (\<lambda>n g. True)\<rparr>"

text \<open>A resolver whose result carries a direct stream URL.\<close>

definition stream_info :: info where
  "stream_info = \<lparr>info_title = Some ''Song'', info_duration = Some 95,
     info_webpage_url = Some ''https://example.org/w'',
     info_url = Some ''https://cdn.example.org/a.webm'',
     info_formats = None, info_entries = None\<rparr>"

definition stream_env :: env where
  "stream_env = \<lparr>extract_info = (\<lambda>n y q. Returned (Some stream_info)),
     open_stream = (\<lambda>n a. True), voice_connected = (\<lambda>n g. True),
     voice_play = (\<lambda>n g src. None), song_info = (\<lambda>n q. ([], [], [])),
     http_get = (\<lambda>n u. HttpRaises), has_voice_client = (\<lambda>n g. True),
     voice_connect = (\<lambda>n g. None), is_playing = (\<lambda>n g. True)\<rparr>"

text \<open>A state whose audio cache holds an entry for the reference \<open>u\<close>.\<close>

definition cached_entry :: audio_entry where
  "cached_entry = \<lparr>entry_source = PCMVolumeTransformer ''https://cdn.example.org/a.webm'',
     entry_info = stream_info, created_at = 2\<rparr>"

definition cached_cog :: cog where
  "cached_cog = init_cog\<lparr>audio_cache := [''u'' \<mapsto> cached_entry]\<rparr>"




text \<open>A short link \<^verbatim>\<open>https://youtu.be/<id>\<close> followed by its parameters, if any.\<close>

definition short_link :: "string \<Rightarrow> string \<Rightarrow> string" where
  "short_link vid params = ''https://youtu.be/'' @ vid @ params"



text \<open>
  The queues and pending playlists of all guilds but one, and the statement that a
  guild's queue and pending playlists are the same in two states.
\<close>

definition elsewhere :: "guild_id \<Rightarrow> cog \<Rightarrow> (guild_id \<rightharpoonup> url list) \<times> (guild_id \<rightharpoonup> string list)" where
  "elsewhere g s = ((queues s)(g := None), (pending_playlists s)(g := None))"

definition untouched :: "guild_id \<Rightarrow> cog \<Rightarrow> cog \<Rightarrow> bool" where
  "untouched g s s' \<longleftrightarrow>
     queues s' g = queues s g \<and> pending_playlists s' g = pending_playlists s g"

text \<open>Two guilds with the same reference queued, and the state after serving the first.\<close>

definition two_guilds :: cog where
  "two_guilds = init_cog\<lparr>queues := [1 \<mapsto> [''u''], 2 \<mapsto> [''u'']]\<rparr>"

definition served_one :: cog where
  "served_one = play_next stream_env 1 None two_guilds"


fun preload_tasks :: "event list \<Rightarrow> url list" where
  "preload_tasks [] = []"
| "preload_tasks (CreateTask (PreloadSong u) # es) = u # preload_tasks es"
| "preload_tasks (e # es) = preload_tasks es"

text \<open>
  A resolver that answers every query with a playlist of four videos, while the player
  is busy; and the state after \<^verbatim>\<open>play\<close> of a playlist link in it.
\<close>

definition video_entry :: "string \<Rightarrow> entry" where
  "video_entry n = \<lparr>entry_title = Some (''Video '' @ n), entry_duration = Some 61,
     entry_webpage_url = Some (''https://example.org/v'' @ n), entry_url = None\<rparr>"

definition video :: "string \<Rightarrow> entry option" where
  "video n = Some (video_entry n)"




section \<open>Queue order\<close>

lemma get_queue_fst: "fst (get_queue g s) = (case queues s g of None \<Rightarrow> [] | Some q \<Rightarrow> q)"
  by (simp add: get_queue_def split: option.splits)

lemma queues_queue_append:
  "queues (queue_append g u s) = (queues s)(g \<mapsto> (case queues s g of None \<Rightarrow> [] | Some q \<Rightarrow> q) @ [u])"
  by (auto simp: queue_append_def get_queue_def split: option.splits)

lemma queues_append_all:
  "us \<noteq> [] \<Longrightarrow> queues (append_all g us s) = (queues s)(g \<mapsto> (case queues s g of None \<Rightarrow> [] | Some q \<Rightarrow> q) @ us)"
  unfolding append_all_def
proof (induction us arbitrary: s)
  case Nil then show ?case by simp
next
  case (Cons u us)
  show ?case
  proof (cases "us = []")
    case True then show ?thesis by (simp add: queues_queue_append)
  next
    case False
    from Cons.IH[OF False, of "queue_append g u s"] show ?thesis
      by (auto simp: queues_queue_append fun_eq_iff)
  qed
qed

lemma pop_heads_prefix:
  "queues s g = Some (us @ rest) \<Longrightarrow>
   \<exists>s'. pop_heads (length us) g s = Some (us, s') \<and> queues s' = (queues s)(g \<mapsto> rest)"
proof (induction us arbitrary: s)
  case Nil
  then show ?case by (auto simp: fun_eq_iff)
next
  case (Cons u us)
  let ?s1 = "s\<lparr>queues := (queues s)(g \<mapsto> us @ rest)\<rparr>"
  have pop: "queue_pop g s = Some (u, ?s1)"
    using Cons.prems by (simp add: queue_pop_def get_queue_def)
  have "queues ?s1 g = Some (us @ rest)" by simp
  from Cons.IH[OF this] obtain s' where
    "pop_heads (length us) g ?s1 = Some (us, s')" "queues s' = (queues ?s1)(g \<mapsto> rest)" by blast
  then show ?case using pop by (auto simp: fun_eq_iff)
qed

text \<open>
  C5. Starting from an empty guild queue (absent or \<open>[]\<close>), after any sequence of appends
  the same number of \<^verbatim>\<open>pop(0)\<close> calls all succeed and return the appended references in
  the order of the appends, leaving the queue empty.
\<close>

theorem fifo_order:
  assumes "queues s g = None \<or> queues s g = Some []"
  shows "\<exists>s'. pop_heads (length us) g (append_all g us s) = Some (us, s') \<and>
              the_queue g s' = []"
proof (cases "us = []")
  case True
  with assms show ?thesis by (auto simp: append_all_def the_queue_def)
next
  case False
  have "queues (append_all g us s) g = Some (us @ [])"
    using assms queues_append_all[OF False, of g s] by auto
  from pop_heads_prefix[OF this] show ?thesis by (auto simp: the_queue_def)
qed

theorem fifo_order_witness:
  "(queues init_cog 1 = None \<or> queues init_cog 1 = Some []) \<and>
   (\<exists>s'. pop_heads (length [''a'', ''b'', ''c'']) 1 (append_all 1 [''a'', ''b'', ''c''] init_cog)
           = Some ([''a'', ''b'', ''c''], s') \<and> the_queue 1 s' = [])"
proof -
  have h: "queues init_cog 1 = None \<or> queues init_cog 1 = Some []"
    by (simp add: init_cog_def)
  from fifo_order[OF h, of "[''a'', ''b'', ''c'']"] h show ?thesis by blast
qed

section \<open>Preloading\<close>

text \<open>
  C4. Preloading a reference that is in the audio cache returns the cached entry and
  leaves the whole state as it was, the trace included: no resolver call, no stream
  construction. This holds for \<^verbatim>\<open>_preload_song\<close> of both files.
\<close>

theorem preload_idempotent:
  assumes "audio_cache s u = Some e"
  shows "preload_song env u s = (Some e, s) \<and> preload_song_old env u s = (Some e, s) \<and>
         trace (snd (preload_song env u s)) = trace s \<and>
         trace (snd (preload_song_old env u s)) = trace s"
  using assms by (simp add: preload_song_def preload_song_old_def)

theorem preload_idempotent_witness:
  "audio_cache cached_cog ''u'' = Some cached_entry \<and>
   preload_song failing_env ''u'' cached_cog = (Some cached_entry, cached_cog) \<and>
   preload_song_old failing_env ''u'' cached_cog = (Some cached_entry, cached_cog)"
proof -
  have h: "audio_cache cached_cog ''u'' = Some cached_entry"
    by (simp add: cached_cog_def)
  from preload_idempotent[OF h, of failing_env] h show ?thesis by blast
qed

lemma truthy_iff: "truthy a \<longleftrightarrow> (\<exists>t. a = Some t \<and> t \<noteq> [])"
  by (cases a) auto

lemma preload_song_None:
  assumes "fst (preload_song env u s) = None"
  shows "audio_cache (snd (preload_song env u s)) = audio_cache s"
    and "pending_playlists (snd (preload_song env u s)) = pending_playlists s"
    and "title_cache (snd (preload_song env u s)) = title_cache s \<or>
         (\<exists>i. extract_info env (now s) PreloadYtdl u = Returned (Some i) \<and>
              title_cache (snd (preload_song env u s)) = (title_cache s)(u \<mapsto> meta_of_info i))"
  using assms
  by (auto simp: preload_song_def emit_def Let_def split: option.splits extract_outcome.splits if_splits)

lemma preload_song_old_None:
  assumes "fst (preload_song_old env u s) = None"
  shows "audio_cache (snd (preload_song_old env u s)) = audio_cache s"
    and "queues (snd (preload_song_old env u s)) = queues s"
    and "title_cache (snd (preload_song_old env u s)) = title_cache s \<or>
         (\<exists>i. extract_info env (now s) CogYtdl u = Returned (Some i) \<and>
              title_cache (snd (preload_song_old env u s)) = (title_cache s)(u \<mapsto> meta_of_info i))"
  using assms
  by (auto simp: preload_song_old_def emit_def Let_def split: option.splits extract_outcome.splits if_splits)

lemma preload_song_write:
  assumes "audio_cache (snd (preload_song env u s)) \<noteq> audio_cache s"
  shows "\<exists>a i. extract_info env (now s) PreloadYtdl u = Returned (Some i) \<and>
           select_audio_url i = Some (Some a) \<and> a \<noteq> [] \<and>
           open_stream env (now s + 1) a \<and>
           trace (snd (preload_song env u s)) = trace s @ [ExtractInfo PreloadYtdl u, OpenStream a] \<and>
           fst (preload_song env u s) = Some \<lparr>entry_source = PCMVolumeTransformer a, entry_info = i, created_at = now s + 2\<rparr> \<and>
           audio_cache (snd (preload_song env u s)) = (audio_cache s)(u \<mapsto> \<lparr>entry_source = PCMVolumeTransformer a, entry_info = i, created_at = now s + 2\<rparr>)"
  using assms
  by (auto simp: preload_song_def emit_def now_def Let_def truthy_iff split: option.splits extract_outcome.splits if_splits)

lemma preload_song_old_write:
  assumes "audio_cache (snd (preload_song_old env u s)) \<noteq> audio_cache s"
  shows "\<exists>a i. extract_info env (now s) CogYtdl u = Returned (Some i) \<and>
           select_audio_url_old i = Some (Some a) \<and> a \<noteq> [] \<and>
           open_stream env (now s + 1) a \<and>
           trace (snd (preload_song_old env u s)) = trace s @ [ExtractInfo CogYtdl u, OpenStream a] \<and>
           fst (preload_song_old env u s) = Some \<lparr>entry_source = FFmpegOpusAudio a, entry_info = i, created_at = now s + 2\<rparr> \<and>
           audio_cache (snd (preload_song_old env u s)) = (audio_cache s)(u \<mapsto> \<lparr>entry_source = FFmpegOpusAudio a, entry_info = i, created_at = now s + 2\<rparr>)"
  using assms
  by (auto simp: preload_song_old_def emit_def now_def Let_def truthy_iff split: option.splits extract_outcome.splits if_splits)

text \<open>
  C10. When \<^verbatim>\<open>_preload_song\<close> returns \<^verbatim>\<open>None\<close> the audio cache is the one it started
  with, while the title cache is either unchanged or has received the resolved title and
  duration of the reference; and whenever the audio cache does change, the run is one in
  which the stream source was constructed first. Both versions of the function.
\<close>

theorem preload_none_keeps_audio_cache:
  "(fst (preload_song env u s) = None \<longrightarrow>
      audio_cache (snd (preload_song env u s)) = audio_cache s \<and>
      (title_cache (snd (preload_song env u s)) = title_cache s \<or>
       (\<exists>i. extract_info env (now s) PreloadYtdl u = Returned (Some i) \<and>
            title_cache (snd (preload_song env u s)) = (title_cache s)(u \<mapsto> meta_of_info i)))) \<and>
   (audio_cache (snd (preload_song env u s)) \<noteq> audio_cache s \<longrightarrow>
      stream_built env PreloadYtdl PCMVolumeTransformer u s (preload_song env u s)) \<and>
   (fst (preload_song_old env u s) = None \<longrightarrow>
      audio_cache (snd (preload_song_old env u s)) = audio_cache s \<and>
      (title_cache (snd (preload_song_old env u s)) = title_cache s \<or>
       (\<exists>i. extract_info env (now s) CogYtdl u = Returned (Some i) \<and>
            title_cache (snd (preload_song_old env u s)) = (title_cache s)(u \<mapsto> meta_of_info i)))) \<and>
   (audio_cache (snd (preload_song_old env u s)) \<noteq> audio_cache s \<longrightarrow>
      stream_built env CogYtdl FFmpegOpusAudio u s (preload_song_old env u s))"
proof -
  have "stream_built env PreloadYtdl PCMVolumeTransformer u s (preload_song env u s)"
    if "audio_cache (snd (preload_song env u s)) \<noteq> audio_cache s"
    using preload_song_write[OF that] unfolding stream_built_def by blast
  moreover have "stream_built env CogYtdl FFmpegOpusAudio u s (preload_song_old env u s)"
    if "audio_cache (snd (preload_song_old env u s)) \<noteq> audio_cache s"
    using preload_song_old_write[OF that] unfolding stream_built_def by blast
  ultimately show ?thesis
    using preload_song_None[of env u s] preload_song_old_None[of env u s] by blast
qed

theorem preload_none_keeps_audio_cache_witness:
  "fst (preload_song no_stream_env ''u'' init_cog) = None \<and>
   audio_cache (snd (preload_song no_stream_env ''u'' init_cog)) = audio_cache init_cog \<and>
   title_cache init_cog ''u'' = None \<and>
   title_cache (snd (preload_song no_stream_env ''u'' init_cog)) ''u'' =
     Some \<lparr>meta_title = ''Song'', meta_duration = 95, meta_webpage_url = None\<rparr> \<and>
   fst (preload_song_old no_stream_env ''u'' init_cog) = None \<and>
   audio_cache (snd (preload_song_old no_stream_env ''u'' init_cog)) = audio_cache init_cog \<and>
   audio_cache (snd (preload_song stream_env ''u'' init_cog)) \<noteq> audio_cache init_cog \<and>
   stream_built stream_env PreloadYtdl PCMVolumeTransformer ''u'' init_cog
     (preload_song stream_env ''u'' init_cog) \<and>
   audio_cache (snd (preload_song_old stream_env ''u'' init_cog)) \<noteq> audio_cache init_cog \<and>
   stream_built stream_env CogYtdl FFmpegOpusAudio ''u'' init_cog
     (preload_song_old stream_env ''u'' init_cog)"
proof -
  have n1: "fst (preload_song no_stream_env ''u'' init_cog) = None"
    by (simp add: preload_song_def no_stream_env_def no_stream_info_def select_audio_url_def
        init_cog_def emit_def Let_def)
  have n2: "fst (preload_song_old no_stream_env ''u'' init_cog) = None"
    by (simp add: preload_song_old_def no_stream_env_def no_stream_info_def
        select_audio_url_old_def init_cog_def emit_def Let_def)
  have t0: "title_cache init_cog ''u'' = None"
    by (simp add: init_cog_def)
  have t1: "title_cache (snd (preload_song no_stream_env ''u'' init_cog)) ''u'' =
     Some \<lparr>meta_title = ''Song'', meta_duration = 95, meta_webpage_url = None\<rparr>"
    by (simp add: preload_song_def no_stream_env_def no_stream_info_def select_audio_url_def
        init_cog_def emit_def Let_def meta_of_info_def)
  have "audio_cache (snd (preload_song stream_env ''u'' init_cog)) ''u'' \<noteq> None"
    by (simp add: preload_song_def stream_env_def stream_info_def select_audio_url_def
        init_cog_def emit_def now_def Let_def)
  then have w1: "audio_cache (snd (preload_song stream_env ''u'' init_cog)) \<noteq> audio_cache init_cog"
    by (auto simp: init_cog_def)
  have "audio_cache (snd (preload_song_old stream_env ''u'' init_cog)) ''u'' \<noteq> None"
    by (simp add: preload_song_old_def stream_env_def stream_info_def select_audio_url_old_def
        init_cog_def emit_def now_def Let_def)
  then have w2: "audio_cache (snd (preload_song_old stream_env ''u'' init_cog)) \<noteq> audio_cache init_cog"
    by (auto simp: init_cog_def)
  from preload_none_keeps_audio_cache[of no_stream_env "''u''" init_cog]
       preload_none_keeps_audio_cache[of stream_env "''u''" init_cog]
       n1 n2 t0 t1 w1 w2
  show ?thesis by blast
qed

section \<open>Retry bound of the sequencer\<close>

lemma the_queue_emit [simp]: "the_queue g (emit e s) = the_queue g s"
  by (simp add: the_queue_def emit_def)


lemma the_queue_preload_song [simp]: "the_queue g (snd (preload_song env u s)) = the_queue g s"
  by (simp add: the_queue_def)





lemma attempt_loop_unfold:
  assumes "(case cached of None \<Rightarrow> preload_song env u s | Some e \<Rightarrow> (Some e, s)) = (cached1, s1)"
    and "try_play env g ch cached1 s1 = (ok, s2)"
  shows "attempt_loop env g ch u cached rc s =
     (if rc < max_retries then
        (if ok then (Played, s2)
         else if rc + 1 \<ge> max_retries then give_up g ch s2
         else attempt_loop env g ch u cached1 (rc + 1) (emit (Sleep 1) s2))
      else (LoopExit, s))"
  using assms by (subst attempt_loop.simps) simp




lemma resolver_calls_emit_Sleep [simp]: "resolver_calls u (emit (Sleep n) s) = resolver_calls u s"
  by (simp add: resolver_calls_def emit_def)




section \<open>Rendering of the queue\<close>








section \<open>Classification of resolver errors\<close>



section \<open>Short links\<close>

lemma py_split_no_sep:
  "c \<notin> set t \<Longrightarrow> py_split [c] cur t = [cur @ t]"
proof (induction t arbitrary: cur)
  case Nil
  then show ?case by (subst py_split.simps) simp
next
  case (Cons a t)
  then have "py_split [c] (cur @ [a]) t = [(cur @ [a]) @ t]" by simp
  with Cons.prems show ?case by (subst py_split.simps) (auto simp: starts_with_def)
qed

lemma py_split_at_sep:
  "c \<notin> set a \<Longrightarrow> py_split [c] cur (a @ c # t) = (cur @ a) # py_split [c] [] t"
proof (induction a arbitrary: cur)
  case Nil
  then show ?case by (subst py_split.simps) (simp add: starts_with_def)
next
  case (Cons x a)
  then have "py_split [c] (cur @ [x]) (a @ c # t) = ((cur @ [x]) @ a) # py_split [c] [] t" by simp
  with Cons.prems show ?case by (subst py_split.simps) (auto simp: starts_with_def)
qed

lemma starts_with_append [simp]: "starts_with p (p @ t)"
  by (simp add: starts_with_def)

lemma contains_self_append: "contains sub (sub @ post)"
proof (cases "sub @ post")
  case Nil
  then show ?thesis by simp
next
  case (Cons a list)
  have "starts_with sub (sub @ post)" by simp
  then have "starts_with sub (a # list)" unfolding Cons .
  then have "contains sub (a # list)" by simp
  then show ?thesis unfolding Cons .
qed

lemma contains_infix: "contains sub (pre @ sub @ post)"
proof (induction pre)
  case Nil
  show ?case using contains_self_append[of sub post] by simp
next
  case (Cons a pre)
  then show ?case by simp
qed

lemma last_split_short_link:
  assumes "CHR ''/'' \<notin> set rest"
  shows "last (py_split ''/'' [] (''https://youtu.be/'' @ rest)) = rest"
proof -
  have a: "''https://youtu.be/'' @ rest = ''https:'' @ CHR ''/'' # ([] @ CHR ''/'' # (''youtu.be'' @ CHR ''/'' # rest))"
    by simp
  have "py_split ''/'' [] (''https://youtu.be/'' @ rest) =
        [''https:'', [], ''youtu.be'', rest]"
    unfolding a
    by (subst py_split_at_sep, simp)+ (simp add: py_split_no_sep[OF assms])
  then show ?thesis by simp
qed

lemma hd_split_parameters:
  assumes "CHR ''?'' \<notin> set vid" and "params = [] \<or> (\<exists>p. params = CHR ''?'' # p)"
  shows "hd (py_split ''?'' [] (vid @ params)) = vid"
proof (cases "params = []")
  case True
  with assms(1) show ?thesis by (simp add: py_split_no_sep)
next
  case False
  with assms(2) obtain p where "params = CHR ''?'' # p" by blast
  with assms(1) show ?thesis by (simp add: py_split_at_sep)
qed

text \<open>
  C8, as stated, fails: the test for a Spotify or Apple Music link comes first in
  \<^verbatim>\<open>play\<close> and looks for its substring anywhere in the lowercased query, so a short link
  whose parameters contain \<^verbatim>\<open>spotify.com\<close> goes to the alternative-source search. With a
  page that yields no phrase the command returns without ever calling the resolver.
\<close>

theorem short_link_with_spotify_parameter:
  "fst (route_query failing_env ''https://youtu.be/abc?ref=spotify.com'' init_cog) = None"
  by (simp add: route_query_def Let_def py_lower_def lower_char_def starts_with_def
      try_alternative_source_def search_phrase_def extract_song_info_def failing_env_def
      emit_def now_def init_cog_def)

text \<open>
  C8, amended. For a short link \<^verbatim>\<open>https://youtu.be/<id>\<close>, alone or followed by \<^verbatim>\<open>?\<close> and
  parameters, where neither the id nor the parameters contain \<^verbatim>\<open>/\<close> and the lowercased
  link contains neither \<^verbatim>\<open>spotify.com\<close> nor \<^verbatim>\<open>music.apple.com\<close>, the query handed to the
  resolver is \<^verbatim>\<open>https://www.youtube.com/watch?v=<id>\<close>; until then nothing has happened
  but, for a link that mentions a list, the notice about playlists.
\<close>

theorem short_link_rewritten:
  assumes vid: "CHR ''/'' \<notin> set vid" "CHR ''?'' \<notin> set vid"
    and params: "params = [] \<or> (\<exists>p. params = CHR ''?'' # p \<and> CHR ''/'' \<notin> set p)"
    and other: "\<not> contains ''spotify.com'' (py_lower (short_link vid params))"
               "\<not> contains ''music.apple.com'' (py_lower (short_link vid params))"
  shows "fst (route_query env (short_link vid params) s) = Some (''https://www.youtube.com/watch?v='' @ vid) \<and>
         (snd (route_query env (short_link vid params) s) = s \<or>
          snd (route_query env (short_link vid params) s) =
            emit (Send Followup ''Processing playlist... This might take a moment.'') s)"
proof -
  let ?q = "short_link vid params"
  have url: "starts_with ''https://'' ?q"
    by (simp add: short_link_def starts_with_def)
  have yt: "contains ''youtu.be'' ?q"
    using contains_infix[of "''youtu.be''" "''https://''" "''/'' @ vid @ params"]
    by (simp add: short_link_def)
  have nosl: "CHR ''/'' \<notin> set (vid @ params)"
    using vid(1) params by auto
  have l: "last (py_split ''/'' [] ?q) = vid @ params"
    unfolding short_link_def using last_split_short_link[OF nosl] by simp
  have h: "hd (py_split ''?'' [] (vid @ params)) = vid"
    using hd_split_parameters[OF vid(2), of params] params by blast
  show ?thesis
    using url yt other l h by (simp add: route_query_def Let_def)
qed

theorem short_link_rewritten_witness:
  "CHR ''/'' \<notin> set ''abc'' \<and> CHR ''?'' \<notin> set ''abc'' \<and>
   \<not> contains ''spotify.com'' (py_lower (short_link ''abc'' ''?x=1'')) \<and>
   \<not> contains ''music.apple.com'' (py_lower (short_link ''abc'' ''?x=1'')) \<and>
   short_link ''abc'' ''?x=1'' = ''https://youtu.be/abc?x=1'' \<and>
   fst (route_query failing_env ''https://youtu.be/abc?x=1'' init_cog) =
     Some ''https://www.youtube.com/watch?v=abc''"
proof -
  have v: "CHR ''/'' \<notin> set ''abc''" "CHR ''?'' \<notin> set ''abc''"
    by simp_all
  have p: "''?x=1'' = [] \<or> (\<exists>p. ''?x=1'' = CHR ''?'' # p \<and> CHR ''/'' \<notin> set p)"
    by simp
  have e: "short_link ''abc'' ''?x=1'' = ''https://youtu.be/abc?x=1''"
    by (simp add: short_link_def)
  have o: "\<not> contains ''spotify.com'' (py_lower (short_link ''abc'' ''?x=1''))"
    "\<not> contains ''music.apple.com'' (py_lower (short_link ''abc'' ''?x=1''))"
    by (simp_all add: short_link_def py_lower_def lower_char_def starts_with_def)
  from short_link_rewritten[OF v p o, of failing_env init_cog] v o e
  show ?thesis by simp
qed

text \<open>
  The last path segment is cut off before the parameters are, so a \<^verbatim>\<open>/\<close> inside the
  parameters gives another id. The amended claim says nothing about such links.
\<close>

lemma short_link_slash_in_parameters:
  "fst (route_query env ''https://youtu.be/abc?u=a/b'' s) = Some ''https://www.youtube.com/watch?v=b''"
  by (simp add: route_query_def Let_def py_lower_def lower_char_def starts_with_def py_split.simps)

section \<open>Trigger of the second page request\<close>



section \<open>Guild keys\<close>

lemma elsewhere_untouched:
  assumes "elsewhere g s' = elsewhere g s" and "g' \<noteq> g"
  shows "untouched g' s s'"
proof -
  from assms(1) have "(queues s')(g := None) = (queues s)(g := None)"
    and "(pending_playlists s')(g := None) = (pending_playlists s)(g := None)"
    by (simp_all add: elsewhere_def)
  then have "((queues s')(g := None)) g' = ((queues s)(g := None)) g'"
    and "((pending_playlists s')(g := None)) g' = ((pending_playlists s)(g := None)) g'"
    by simp_all
  with assms(2) show ?thesis by (simp add: untouched_def)
qed

lemma elsewhere_emit [simp]: "elsewhere g (emit e s) = elsewhere g s"
  by (simp add: elsewhere_def emit_def)

lemma elsewhere_notify [simp]: "elsewhere g (notify ch m s) = elsewhere g s"
  by (simp add: notify_def split: option.splits)

lemma elsewhere_title_cache [simp]: "elsewhere g (s\<lparr>title_cache := tc\<rparr>) = elsewhere g s"
  by (simp add: elsewhere_def)

lemma elsewhere_queues_upd [simp]:
  "elsewhere g (s\<lparr>queues := (queues s)(g \<mapsto> q)\<rparr>) = elsewhere g s"
  by (simp add: elsewhere_def)

lemma elsewhere_pending_upd [simp]:
  "elsewhere g (s\<lparr>pending_playlists := (pending_playlists s)(g \<mapsto> ps)\<rparr>) = elsewhere g s"
  by (simp add: elsewhere_def)

lemma elsewhere_get_queue [simp]: "elsewhere g (snd (get_queue g s)) = elsewhere g s"
  by (simp add: get_queue_def split: option.splits)

lemma elsewhere_queue_append [simp]: "elsewhere g (queue_append g u s) = elsewhere g s"
  by (simp add: queue_append_def get_queue_def elsewhere_def split: option.splits)

lemma elsewhere_queue_pop: "queue_pop g s = Some (u, s') \<Longrightarrow> elsewhere g s' = elsewhere g s"
  by (auto simp: queue_pop_def get_queue_def elsewhere_def split: option.splits list.splits)

lemma elsewhere_preload_song [simp]: "elsewhere g (snd (preload_song env u s)) = elsewhere g s"
  by (auto simp: preload_song_def elsewhere_def emit_def Let_def
           split: option.splits extract_outcome.splits)

lemma elsewhere_try_play [simp]: "elsewhere g (snd (try_play env g ch cached s)) = elsewhere g s"
  by (auto simp: try_play_def Let_def split: option.splits dest: elsewhere_queue_pop)

lemma elsewhere_give_up [simp]: "elsewhere g (snd (give_up g ch s)) = elsewhere g s"
  by (auto simp: give_up_def Let_def split: option.splits dest: elsewhere_queue_pop)

lemma elsewhere_attempt_loop [simp]:
  "elsewhere g (snd (attempt_loop env g ch u cached rc s)) = elsewhere g s"
proof (induction env g ch u cached rc s rule: attempt_loop.induct)
  case (1 env g ch u cached rc s)
  obtain cached1 s1 where c: "(case cached of None \<Rightarrow> preload_song env u s | Some e \<Rightarrow> (Some e, s)) = (cached1, s1)"
    by (cases "(case cached of None \<Rightarrow> preload_song env u s | Some e \<Rightarrow> (Some e, s))") auto
  obtain ok s2 where t: "try_play env g ch cached1 s1 = (ok, s2)"
    by (cases "try_play env g ch cached1 s1") auto
  have e1: "elsewhere g s1 = elsewhere g s"
  proof (cases cached)
    case None
    with c have "s1 = snd (preload_song env u s)" by simp
    then show ?thesis by simp
  next
    case (Some e)
    with c show ?thesis by simp
  qed
  have e2: "elsewhere g s2 = elsewhere g s"
    using elsewhere_try_play[of g env ch cached1 s1] t e1 by simp
  note unf = attempt_loop_unfold[OF c t, of rc]
  show ?case
  proof (cases "rc < max_retries \<and> \<not> ok \<and> \<not> rc + 1 \<ge> max_retries")
    case True
    then have "elsewhere g (snd (attempt_loop env g ch u cached1 (rc + 1) (emit (Sleep 1) s2))) =
        elsewhere g (emit (Sleep 1) s2)"
      using 1[OF _ refl c[symmetric] refl t[symmetric]] by simp
    with True unf e2 show ?thesis by simp
  next
    case False
    with unf e2 show ?thesis by (auto split: if_splits)
  qed
qed

lemma elsewhere_play_next_body [simp]:
  "elsewhere g (snd (play_next_body env g ch s)) = elsewhere g s"
proof -
  obtain q s1 where gq: "get_queue g s = (q, s1)" by (cases "get_queue g s") auto
  then have e1: "elsewhere g s1 = elsewhere g s"
    using elsewhere_get_queue[of g s] by simp
  show ?thesis
  proof (cases q)
    case Nil
    with gq e1 show ?thesis by (simp add: play_next_body_def)
  next
    case (Cons u rest)
    obtain r s2 where al: "attempt_loop env g ch u (audio_cache s1 u) 0 s1 = (r, s2)"
      by (cases "attempt_loop env g ch u (audio_cache s1 u) 0 s1") auto
    then have e2: "elsewhere g s2 = elsewhere g s"
      using elsewhere_attempt_loop[of g env ch u "audio_cache s1 u" 0 s1] e1 by simp
    show ?thesis
      using gq Cons al e2
      by (cases r) (auto simp: play_next_body_def Let_def split: option.splits
                         dest!: elsewhere_queue_pop)
  qed
qed

lemma elsewhere_play_next [simp]: "elsewhere g (play_next env g ch s) = elsewhere g s"
proof (induction env g ch s rule: play_next.induct)
  case (1 env g ch s)
  obtain b s' where pb: "play_next_body env g ch s = (b, s')"
    by (cases "play_next_body env g ch s") auto
  then have e: "elsewhere g s' = elsewhere g s"
    using elsewhere_play_next_body[of g env ch s] by simp
  show ?case
  proof (cases b)
    case False
    with pb e show ?thesis by (subst play_next.simps) simp
  next
    case True
    then have "b = True" by simp
    from 1[OF pb[symmetric] this] e pb True show ?thesis
      by (subst play_next.simps) simp
  qed
qed

lemma elsewhere_search_terms_loop [simp]:
  "elsewhere g (snd (search_terms_loop env terms s)) = elsewhere g s"
  by (induction terms arbitrary: s)
     (auto simp: Let_def split: extract_outcome.splits option.splits list.splits)

lemma elsewhere_search_phrase [simp]:
  "elsewhere g (snd (search_phrase env query s)) = elsewhere g s"
  by (auto simp: search_phrase_def extract_song_info_def Let_def split_beta
           split: http_outcome.splits option.splits)

lemma elsewhere_try_alternative_source [simp]:
  "elsewhere g (snd (try_alternative_source env query s)) = elsewhere g s"
proof -
  obtain r s1 where sp: "search_phrase env query s = (r, s1)"
    by (cases "search_phrase env query s") auto
  then have e1: "elsewhere g s1 = elsewhere g s"
    using elsewhere_search_phrase[of g env query s] by simp
  show ?thesis
  proof (cases r)
    case None
    with sp e1 show ?thesis by (simp add: try_alternative_source_def)
  next
    case (Some sq)
    obtain r2 s2 where st: "search_terms_loop env [sq @ '' official audio'', sq @ '' lyrics'', sq] s1 = (r2, s2)"
      by (cases "search_terms_loop env [sq @ '' official audio'', sq @ '' lyrics'', sq] s1") auto
    then have "elsewhere g s2 = elsewhere g s"
      using elsewhere_search_terms_loop[of g env "[sq @ '' official audio'', sq @ '' lyrics'', sq]" s1] e1
      by simp
    with sp Some st e1 show ?thesis
      by (auto simp: try_alternative_source_def split: option.splits)
  qed
qed

lemma elsewhere_extract_song_info [simp]:
  "elsewhere g (snd (extract_song_info env query s)) = elsewhere g s"
  by (simp add: extract_song_info_def)

lemma elsewhere_route_query [simp]:
  "elsewhere g (snd (route_query env query s)) = elsewhere g s"
proof -
  let ?s1 = "emit (Send Followup ''Processing link... Searching for alternative source...'') s"
  obtain r s2 where ta: "try_alternative_source env query ?s1 = (r, s2)"
    by (cases "try_alternative_source env query ?s1") auto
  then have e2: "elsewhere g s2 = elsewhere g s"
    using elsewhere_try_alternative_source[of g env query ?s1] by simp
  obtain r3 s3 where es: "extract_song_info env query s2 = (r3, s3)"
    by (cases "extract_song_info env query s2") auto
  then have e3: "elsewhere g s3 = elsewhere g s"
    using elsewhere_extract_song_info[of g env query s2] e2 by simp
  show ?thesis
    using ta es e2 e3
    by (auto simp: route_query_def Let_def split_beta split: option.splits if_splits)
qed

lemma elsewhere_enqueue_playlist [simp]:
  "elsewhere g (enqueue_playlist g ch query entries s) = elsewhere g s"
  by (simp add: enqueue_playlist_def Let_def split: option.splits)

lemma elsewhere_enqueue_track [simp]:
  "elsewhere g (snd (enqueue_track g i s)) = elsewhere g s"
  by (simp add: enqueue_track_def Let_def)

lemma elsewhere_drm_fallback [simp]:
  "elsewhere g (drm_fallback env g ch query s) = elsewhere g s"
proof -
  let ?s1 = "emit (Send Followup ''DRM protection detected. Searching for alternative source...'') s"
  obtain ok alt msg s2 where ta: "try_alternative_source env query ?s1 = ((ok, alt, msg), s2)"
    by (cases "try_alternative_source env query ?s1") auto
  then have e2: "elsewhere g s2 = elsewhere g s"
    using elsewhere_try_alternative_source[of g env query ?s1] by simp
  show ?thesis
    using ta e2
    by (auto simp: drm_fallback_def Let_def split: extract_outcome.splits option.splits)
qed

lemma elsewhere_on_resolver_error [simp]:
  "elsewhere g (on_resolver_error env g ch query e s) = elsewhere g s"
  by (simp add: on_resolver_error_def split: error_action.splits)

lemma elsewhere_play_in_guild [simp]:
  "elsewhere g (play_in_guild env g ch query s) = elsewhere g s"
proof -
  let ?s1 = "if \<not> has_voice_client env (now s) g then emit (VoiceConnect g) s else s"
  have e1: "elsewhere g ?s1 = elsewhere g s" by simp
  obtain r s2 where rq: "route_query env query ?s1 = (r, s2)"
    by (cases "route_query env query ?s1") auto
  then have e2: "elsewhere g s2 = elsewhere g s"
    using elsewhere_route_query[of g env query ?s1] e1 by simp
  have e5: "elsewhere g (snd (case info_entries i of
              Some entries \<Rightarrow> (True, enqueue_playlist g ch q entries s4)
            | None \<Rightarrow> enqueue_track g i s4)) = elsewhere g s4" for i q s4
    by (cases "info_entries i") simp_all
  show ?thesis
    using rq e2 e5
    by (auto simp: play_in_guild_def Let_def split_beta
             split: option.splits extract_outcome.splits)
qed

lemma elsewhere_expand_entries [simp]:
  "elsewhere g (expand_entries g xs s) = elsewhere g s"
  by (induction xs arbitrary: s) (simp_all add: Let_def)

lemma elsewhere_expand_playlist [simp]:
  "elsewhere g (expand_playlist env g ch p s) = elsewhere g s"
  by (simp add: expand_playlist_def Let_def split: extract_outcome.splits option.splits)

lemma elsewhere_expand_playlists [simp]:
  "elsewhere g (expand_playlists env g ch ps s) = elsewhere g s"
  by (induction ps arbitrary: s) simp_all

lemma elsewhere_process_pending_playlists [simp]:
  "elsewhere g (process_pending_playlists env g ch s) = elsewhere g s"
  by (simp add: process_pending_playlists_def Let_def split: option.splits)

lemma elsewhere_schedule_uncached [simp]:
  "elsewhere g (schedule_uncached us s) = elsewhere g s"
  by (induction us arbitrary: s) simp_all

lemma elsewhere_preload_next_tracks [simp]:
  "elsewhere g (preload_next_tracks g n s) = elsewhere g s"
proof -
  obtain q s1 where gq: "get_queue g s = (q, s1)" by (cases "get_queue g s") auto
  then have "elsewhere g s1 = elsewhere g s"
    using elsewhere_get_queue[of g s] by simp
  with gq show ?thesis by (simp add: preload_next_tracks_def)
qed

lemma elsewhere_queue_embed [simp]:
  "elsewhere g (snd (queue_embed np g s)) = elsewhere g s"
proof -
  obtain q s1 where gq: "get_queue g s = (q, s1)" by (cases "get_queue g s") auto
  then have "elsewhere g s1 = elsewhere g s"
    using elsewhere_get_queue[of g s] by simp
  with gq show ?thesis by (simp add: queue_embed_def)
qed

lemma cached_head_played:
  assumes c: "audio_cache s u = Some e"
    and conn: "voice_connected env (now s) g"
    and q: "queues s g = Some (u # rest)"
    and ok: "voice_play env (now s) g (entry_source e) = None"
  shows "play_next env g ch s =
     emit (CreateTask (PreloadNextTracks g))
       (notify ch (''Now playing: '' @ meta_title (meta_of_info (entry_info e)))
          (emit (VoicePlay g (entry_source e)) (s\<lparr>queues := (queues s)(g \<mapsto> rest)\<rparr>)))"
proof -
  let ?s1 = "s\<lparr>queues := (queues s)(g \<mapsto> rest)\<rparr>"
  let ?s' = "emit (CreateTask (PreloadNextTracks g))
       (notify ch (''Now playing: '' @ meta_title (meta_of_info (entry_info e)))
          (emit (VoicePlay g (entry_source e)) ?s1))"
  have pop: "queue_pop g s = Some (u, ?s1)"
    using q by (simp add: queue_pop_def get_queue_def)
  have n: "now ?s1 = now s"
    by (simp add: now_def)
  have tp: "try_play env g ch (Some e) s = (True, ?s')"
    using pop ok n by (simp add: try_play_def Let_def)
  have al: "attempt_loop env g ch u (Some e) 0 s = (Played, ?s')"
    using attempt_loop_unfold[where cached="Some e" and env=env and u=u and s=s
        and ?cached1.0="Some e" and ?s1.0=s and g=g and ch=ch and ok=True and ?s2.0="?s'" and rc=0] tp
    by (simp add: max_retries_def)
  have body: "play_next_body env g ch s = (False, ?s')"
    using conn q c al by (simp add: play_next_body_def get_queue_def)
  then show ?thesis
    by (subst play_next.simps) simp
qed

text \<open>
  C2, as stated, fails for the two caches: \<^verbatim>\<open>self.title_cache\<close> and \<^verbatim>\<open>self.audio_cache\<close> are
  indexed by the track reference alone. With the same reference queued in two guilds,
  the entry that \<^verbatim>\<open>play_next\<close> stores while serving the first guild is the one played for
  the second, with no further resolver call.
\<close>

theorem audio_cache_shared_between_guilds:
  "audio_cache two_guilds ''u'' = None \<and>
   audio_cache served_one ''u'' =
     Some \<lparr>entry_source = PCMVolumeTransformer ''https://cdn.example.org/a.webm'',
           entry_info = stream_info, created_at = 2\<rparr> \<and>
   trace (play_next stream_env 2 None served_one) =
     trace served_one @
       [VoicePlay 2 (PCMVolumeTransformer ''https://cdn.example.org/a.webm''),
        CreateTask (PreloadNextTracks 2)] \<and>
   resolver_calls ''u'' (play_next stream_env 2 None served_one) = 1"
proof -
  have a: "audio_cache two_guilds ''u'' = None"
    by (simp add: two_guilds_def init_cog_def)
  have b: "audio_cache served_one ''u'' =
     Some \<lparr>entry_source = PCMVolumeTransformer ''https://cdn.example.org/a.webm'',
           entry_info = stream_info, created_at = 2\<rparr>"
    by code_simp
  have c: "trace (play_next stream_env 2 None served_one) =
     trace served_one @
       [VoicePlay 2 (PCMVolumeTransformer ''https://cdn.example.org/a.webm''),
        CreateTask (PreloadNextTracks 2)]"
    by code_simp
  have d: "resolver_calls ''u'' (play_next stream_env 2 None served_one) = 1"
    by code_simp
  from a b c d show ?thesis by (intro conjI)
qed

text \<open>
  C2, amended. The queue map and the pending-playlist map are keyed by guild identity:
  \<^verbatim>\<open>play\<close>, \<^verbatim>\<open>play_next\<close>, the background expansion, \<^verbatim>\<open>preload_next_tracks\<close> and the \<^verbatim>\<open>queue\<close>
  display, serving one guild, leave the queue and the pending playlists of every other
  guild as they were. The caches are keyed by the track reference alone: an audio-cache
  entry, whichever guild it was written for, is played without a resolver call for any
  guild that has the reference at the head of its queue.
\<close>

theorem guild_keyed_maps:
  "(g' \<noteq> g \<longrightarrow>
      untouched g' s (play_in_guild env g ch query s) \<and>
      untouched g' s (play_next env g ch s) \<and>
      untouched g' s (process_pending_playlists env g ch s) \<and>
      untouched g' s (preload_next_tracks g n s) \<and>
      untouched g' s (snd (queue_embed np g s))) \<and>
   (audio_cache s u = Some e \<and> voice_connected env (now s) g \<and> queues s g = Some (u # rest) \<and>
    voice_play env (now s) g (entry_source e) = None \<longrightarrow>
      play_next env g ch s =
        emit (CreateTask (PreloadNextTracks g))
          (notify ch (''Now playing: '' @ meta_title (meta_of_info (entry_info e)))
             (emit (VoicePlay g (entry_source e)) (s\<lparr>queues := (queues s)(g \<mapsto> rest)\<rparr>))))"
proof -
  have a: "untouched g' s (play_in_guild env g ch query s) \<and>
      untouched g' s (play_next env g ch s) \<and>
      untouched g' s (process_pending_playlists env g ch s) \<and>
      untouched g' s (preload_next_tracks g n s) \<and>
      untouched g' s (snd (queue_embed np g s))" if "g' \<noteq> g"
    using that by (intro conjI elsewhere_untouched) simp_all
  from a cached_head_played[of s u e env g rest ch] show ?thesis by blast
qed

theorem guild_keyed_maps_witness:
  "untouched 2 two_guilds (play_next stream_env 1 None two_guilds) \<and>
   untouched 2 two_guilds (process_pending_playlists stream_env 1 None two_guilds) \<and>
   queues served_one 2 = Some [''u''] \<and>
   play_next stream_env 2 None served_one =
     emit (CreateTask (PreloadNextTracks 2))
       (emit (VoicePlay 2 (PCMVolumeTransformer ''https://cdn.example.org/a.webm''))
          (served_one\<lparr>queues := (queues served_one)(2 \<mapsto> [])\<rparr>))"
proof -
  have d: "(2::nat) \<noteq> 1" by simp
  have c: "audio_cache served_one ''u'' =
     Some \<lparr>entry_source = PCMVolumeTransformer ''https://cdn.example.org/a.webm'',
           entry_info = stream_info, created_at = 2\<rparr>"
    by code_simp
  have conn: "voice_connected stream_env (now served_one) 2"
    by (simp add: stream_env_def)
  have q: "queues served_one 2 = Some (''u'' # [])"
    by code_simp
  have ok: "voice_play stream_env (now served_one) 2
      (entry_source \<lparr>entry_source = PCMVolumeTransformer ''https://cdn.example.org/a.webm'',
           entry_info = stream_info, created_at = 2\<rparr>) = None"
    by (simp add: stream_env_def)
  from guild_keyed_maps[where g'=2 and g=1 and s=two_guilds and env=stream_env and ch=None] d
  have u: "untouched 2 two_guilds (play_next stream_env 1 None two_guilds)"
    "untouched 2 two_guilds (process_pending_playlists stream_env 1 None two_guilds)"
    by blast+
  from guild_keyed_maps[where g=2 and s=served_one and env=stream_env and ch=None and u="''u''"
      and e="\<lparr>entry_source = PCMVolumeTransformer ''https://cdn.example.org/a.webm'',
           entry_info = stream_info, created_at = 2\<rparr>" and rest="[]"] c conn q ok
  have p: "play_next stream_env 2 None served_one =
     emit (CreateTask (PreloadNextTracks 2))
       (emit (VoicePlay 2 (PCMVolumeTransformer ''https://cdn.example.org/a.webm''))
          (served_one\<lparr>queues := (queues served_one)(2 \<mapsto> [])\<rparr>))"
    by (simp add: notify_def)
  from u q p show ?thesis by simp
qed

section \<open>Playlist expansion\<close>

lemma the_queue_title_cache_update [simp]:
  "the_queue g (s\<lparr>title_cache := tc\<rparr>) = the_queue g s"
  by (simp add: the_queue_def)

lemma the_queue_queue_append [simp]:
  "the_queue g (queue_append g u s) = the_queue g s @ [u]"
  by (simp add: the_queue_def queue_append_def get_queue_def split: option.splits)

lemma trace_queue_append [simp]: "trace (queue_append g u s) = trace s"
  by (simp add: queue_append_def get_queue_def split: option.splits)

lemma title_cache_queue_append [simp]: "title_cache (queue_append g u s) = title_cache s"
  by (simp add: queue_append_def get_queue_def split: option.splits)

lemma pending_queue_append [simp]: "pending_playlists (queue_append g u s) = pending_playlists s"
  by (simp add: queue_append_def get_queue_def split: option.splits)

lemma trace_snd_get_queue [simp]: "trace (snd (get_queue g s)) = trace s"
  by (simp add: get_queue_def split: option.splits)

lemma trace_emit [simp]: "trace (emit e s) = trace s @ [e]"
  by (simp add: emit_def)

lemma title_cache_emit [simp]: "title_cache (emit e s) = title_cache s"
  by (simp add: emit_def)

lemma pending_emit [simp]: "pending_playlists (emit e s) = pending_playlists s"
  by (simp add: emit_def)

lemma preload_tasks_append [simp]:
  "preload_tasks (xs @ ys) = preload_tasks xs @ preload_tasks ys"
  by (induction xs rule: preload_tasks.induct) simp_all






lemma pending_expand_entries [simp]:
  "pending_playlists (expand_entries g xs s) = pending_playlists s"
  by (induction xs arbitrary: s) (simp_all add: Let_def)




end
